theory Spec2Isabelle
  imports Complex_Main
begin

section \<open>Errors\<close>

text \<open>
  Every exception of the Python source is a value. The constructors are named after the
  Python exception classes. A \<open>ValueError\<close> raised by a \<open>raise\<close> statement of the file
  carries the message of that statement; the string of a \<open>ValueError\<close> that Python raises
  itself (\<open>int\<close>, tuple unpacking) only names its cause. An error raised inside
  the tensor library is whatever value the library operation returns.
\<close>

datatype error =
    ValueError string
  | ZeroDivisionError
  | IndexError
  | TypeError
  | AttributeError
  | RuntimeError
  | OverflowError

definition bindE :: "error + 'a \<Rightarrow> ('a \<Rightarrow> error + 'b) \<Rightarrow> error + 'b" where
  "bindE r f = (case r of Inl e \<Rightarrow> Inl e | Inr v \<Rightarrow> f v)"

section \<open>64-bit integers\<close>

text \<open>
  The entries of a \<open>torch.long\<close> tensor and of a numpy integer array are signed 64-bit
  integers. They are integers here, with the range written out: an arithmetic operation on
  a \<open>torch.long\<close> tensor wraps around.
\<close>

definition fits64 :: "int \<Rightarrow> bool" where
  "fits64 v = (- (2 ^ 63) \<le> v \<and> v < 2 ^ 63)"

definition wrap64 :: "int \<Rightarrow> int" where
  "wrap64 v = (v + 2 ^ 63) mod 2 ^ 64 - 2 ^ 63"

section \<open>Tensors\<close>

text \<open>
  A feature tensor has three dimensions (batch, channels, time) and a contiguous
  row-major storage: element \<open>(b, c, t)\<close> lives at offset \<open>(b * size1 + c) * size2 + t\<close>.
  The element type is a parameter; only its zero is used (the fill value of the mask).
\<close>

record 'a tensor =
  size0 :: nat
  size1 :: nat
  size2 :: nat
  storage :: "'a list"

definition elem :: "'a tensor \<Rightarrow> nat \<Rightarrow> nat \<Rightarrow> nat \<Rightarrow> 'a" where
  "elem x b c t = storage x ! ((b * size1 x + c) * size2 x + t)"

definition numel :: "'a tensor \<Rightarrow> nat" where
  "numel x = size0 x * size1 x * size2 x"

definition contiguous_ok :: "'a tensor \<Rightarrow> bool" where
  "contiguous_ok x = (length (storage x) = numel x)"

text \<open>
  \<open>torch.arange(max_len).expand(len(x_len), max_len) >= x_len.unsqueeze(1)\<close>: one row per
  entry of the length vector, one column per time position, true where the position is at
  or beyond the length.
\<close>

definition length_mask :: "nat \<Rightarrow> int list \<Rightarrow> bool list list" where
  "length_mask max_len x_len = map (\<lambda>l. map (\<lambda>t. l \<le> int t) [0..<max_len]) x_len"

text \<open>
  \<open>x.masked_fill(mask=mask.unsqueeze(1), value=v)\<close> for a mask of \<open>N\<close> rows of \<open>size2 x\<close>
  columns: the mask, seen as \<open>(N, 1, size2 x)\<close>, and the tensor are broadcast against each
  other on the batch dimension (equal sizes, or one of them 1); any other pair of sizes is
  an error of the library.
\<close>

definition masked_fill :: "'a tensor \<Rightarrow> bool list list \<Rightarrow> 'a \<Rightarrow> error + 'a tensor" where
  "masked_fill x msk v =
     (let N = length msk; B = size0 x; C = size1 x; T = size2 x in
      if N = B \<or> N = 1 \<or> B = 1 then
        let B' = (if B = 1 then N else B) in
        Inr \<lparr>size0 = B', size1 = C, size2 = T,
             storage = map (\<lambda>n.
               let b = n div (C * T); c = (n div T) mod C; t = n mod T in
               if msk ! (if N = 1 then 0 else b) ! t then v
               else elem x (if B = 1 then 0 else b) c t) [0..<B' * C * T]\<rparr>
      else Inl RuntimeError)"

section \<open>The tensor library as a parameter\<close>

text \<open>
  The numerical operations of the tensor library (convolution, batch normalisation,
  activation, dropout, addition, stacking and summing) and its layer constructors are not
  part of the program; they are the fields of a record that every function of the model
  takes as its first argument. A library constructor may refuse its arguments.
\<close>

record 'a BatchNorm1d =
  num_features :: int
  eps :: real
  bn_weight :: "'a list"
  bn_bias :: "'a list"

record 'a framework =
  Conv1d_new :: "int \<Rightarrow> int \<Rightarrow> int \<Rightarrow> int \<Rightarrow> int \<Rightarrow> int \<Rightarrow> int \<Rightarrow> bool
                  \<Rightarrow> error + ('a list \<times> 'a list option)"
  BatchNorm1d_new :: "int \<Rightarrow> real \<Rightarrow> error + 'a BatchNorm1d"
  Dropout_new :: "real \<Rightarrow> error + real"
  F_conv1d :: "'a tensor \<Rightarrow> 'a tensor \<Rightarrow> 'a list option \<Rightarrow> int \<Rightarrow> int \<Rightarrow> int \<Rightarrow> int
                \<Rightarrow> error + 'a tensor"
  batch_norm :: "'a BatchNorm1d \<Rightarrow> 'a tensor \<Rightarrow> error + 'a tensor"
  relu :: "'a tensor \<Rightarrow> 'a tensor"
  dropout_apply :: "real \<Rightarrow> 'a tensor \<Rightarrow> 'a tensor"
  tensor_add :: "'a tensor \<Rightarrow> 'a tensor \<Rightarrow> error + 'a tensor"
  stack_sum :: "'a tensor list \<Rightarrow> error + 'a tensor"
  kaiming_uniform :: "'a tensor \<Rightarrow> 'a tensor"
  constant_init :: "'a list \<Rightarrow> 'a list"
  long_overflow :: "int \<Rightarrow> error + int"

text \<open>
  A Python integer that is the other operand of an operation on a \<open>torch.long\<close> tensor
  is taken as it is when it lies in the 64-bit range. What happens to one outside the range
  is the library's business and differs between its versions (an overflow error, or a
  value read as unsigned): it is the field \<open>long_overflow\<close>.
\<close>

definition scalar64 :: "'a framework \<Rightarrow> int \<Rightarrow> error + int" where
  "scalar64 fw v = (if fits64 v then Inr v else long_overflow fw v)"


section \<open>Conv1d and MaskConv1d\<close>

text \<open>
  \<open>nn.Conv1d\<close>: the hyper-parameters as given, a weight of shape
  \<open>(out_channels, in_channels // groups, kernel_size)\<close> and an optional bias, both with the
  values the library's constructor draws. \<open>MaskConv1d\<close> is the subclass with one more
  field.
\<close>

record 'a Conv1d =
  in_channels :: int
  out_channels :: int
  kernel_size :: int
  stride :: int
  padding :: int
  dilation :: int
  groups :: int
  weight :: "'a tensor"
  bias :: "'a list option"

record 'a MaskConv1d = "'a Conv1d" +
  use_mask :: bool

definition Conv1d_init ::
  "'a framework \<Rightarrow> int \<Rightarrow> int \<Rightarrow> int \<Rightarrow> int \<Rightarrow> int \<Rightarrow> int \<Rightarrow> int \<Rightarrow> bool \<Rightarrow> error + 'a Conv1d" where
  "Conv1d_init fw inc outc k s p d g b =
     bindE (Conv1d_new fw inc outc k s p d g b) (\<lambda>(w, bs).
       Inr \<lparr>in_channels = inc, out_channels = outc, kernel_size = k, stride = s,
            padding = p, dilation = d, groups = g,
            weight = \<lparr>size0 = nat outc, size1 = nat (inc div g), size2 = nat k, storage = w\<rparr>,
            bias = bs\<rparr>)"

definition MaskConv1d_init ::
  "'a framework \<Rightarrow> int \<Rightarrow> int \<Rightarrow> int \<Rightarrow> int \<Rightarrow> int \<Rightarrow> int \<Rightarrow> int \<Rightarrow> bool \<Rightarrow> bool
     \<Rightarrow> error + 'a MaskConv1d" where
  "MaskConv1d_init fw inc outc k s p d g b um =
     bindE (Conv1d_init fw inc outc k s p d g b) (\<lambda>c. Inr (Conv1d.extend c \<lparr>use_mask = um\<rparr>))"

text \<open>
  The length update of \<open>MaskConv1d.forward\<close>,
  \<open>(x_len + 2 * padding - dilation * (kernel_size - 1) - 1) // stride + 1\<close>, on a
  \<open>torch.long\<close> tensor. The length vector \<open>x_len\<close> holds the entries of an integer
  tensor, which \<open>x_len.to(dtype=torch.long)\<close> keeps. The hyper-parameters are Python
  integers, so \<open>2 * padding\<close> and \<open>dilation * (kernel_size - 1)\<close> are computed exactly;
  each of the five tensor operations, from left to right, then wraps around in 64 bits.
  \<open>//\<close> is floor division. The library checks the divisor on every entry it divides and
  raises \<open>RuntimeError\<close> on a zero, so that an empty length vector passes. The quotient of
  the least 64-bit integer by \<open>-1\<close> is not defined by the hardware; it wraps here.
\<close>

definition MaskConv1d_lengths ::
  "'c framework \<Rightarrow> ('a, 'b) MaskConv1d_scheme \<Rightarrow> int list \<Rightarrow> error + int list" where
  "MaskConv1d_lengths fw m x_len =
     bindE (scalar64 fw (2 * padding m)) (\<lambda>a.
       let x_len = map (\<lambda>l. wrap64 (l + a)) x_len in
     bindE (scalar64 fw (dilation m * (kernel_size m - 1))) (\<lambda>b.
       let x_len = map (\<lambda>l. wrap64 (l - b)) x_len;
           x_len = map (\<lambda>l. wrap64 (l - 1)) x_len in
     bindE (scalar64 fw (stride m)) (\<lambda>s.
       if s = 0 \<and> x_len \<noteq> [] then Inl RuntimeError
       else
         let x_len = map (\<lambda>l. wrap64 (l div s)) x_len in
         Inr (map (\<lambda>l. wrap64 (l + 1)) x_len))))"

text \<open>
  The body of \<open>if self.use_mask:\<close> in \<open>MaskConv1d.forward\<close>: the masked tensor and the
  updated lengths.
\<close>

definition MaskConv1d_mask ::
  "'a framework \<Rightarrow> ('a::zero, 'b) MaskConv1d_scheme \<Rightarrow> 'a tensor \<Rightarrow> int list
     \<Rightarrow> error + ('a tensor \<times> int list)" where
  "MaskConv1d_mask fw m x x_len =
     (let max_len = size2 x;
          mask = length_mask max_len x_len in
      bindE (masked_fill x mask 0) (\<lambda>x.
      bindE (MaskConv1d_lengths fw m x_len) (\<lambda>x_len.
        Inr (x, x_len))))"

definition MaskConv1d_forward ::
  "'a framework \<Rightarrow> ('a::zero, 'b) MaskConv1d_scheme \<Rightarrow> 'a tensor \<Rightarrow> int list
     \<Rightarrow> error + ('a tensor \<times> int list)" where
  "MaskConv1d_forward fw m x x_len =
     bindE (if use_mask m then MaskConv1d_mask fw m x x_len else Inr (x, x_len)) (\<lambda>(x, x_len).
       bindE (F_conv1d fw x (weight m) (bias m) (stride m) (padding m) (dilation m) (groups m))
         (\<lambda>x. Inr (x, x_len)))"

text \<open>
  The length formula as the specification writes it, with a real quotient and a floor:
  \<open>floor((len + 2*padding - dilation*(kernel-1) - 1) / stride) + 1\<close>.
\<close>

definition conv_output_length :: "int \<Rightarrow> int \<Rightarrow> int \<Rightarrow> int \<Rightarrow> int \<Rightarrow> int" where
  "conv_output_length k strd pad dil len =
     \<lfloor>real_of_int (len + 2 * pad - dil * (k - 1) - 1) / real_of_int strd\<rfloor> + 1"

text \<open>
  No value of the length update leaves the 64-bit range: the two products of
  hyper-parameters, the stride, and for every entry of the length vector the results of the
  two subtractions, of the addition before them and of the addition after the division.
\<close>

definition lengths_fit_int64 :: "('a, 'b) MaskConv1d_scheme \<Rightarrow> int list \<Rightarrow> bool" where
  "lengths_fit_int64 m x_len =
     (fits64 (2 * padding m) \<and> fits64 (dilation m * (kernel_size m - 1)) \<and> fits64 (stride m)
      \<and> (\<forall>l\<in>set x_len.
            fits64 (l + 2 * padding m)
            \<and> fits64 (l + 2 * padding m - dilation m * (kernel_size m - 1))
            \<and> fits64 (l + 2 * padding m - dilation m * (kernel_size m - 1) - 1)
            \<and> fits64 ((l + 2 * padding m - dilation m * (kernel_size m - 1) - 1)
                        div stride m + 1)))"

section \<open>Channel shuffle\<close>

text \<open>
  The intermediate tensor of the shuffle has four dimensions, again with a contiguous
  row-major storage.
\<close>

record 'a tensor4 =
  dim0 :: nat
  dim1 :: nat
  dim2 :: nat
  dim3 :: nat
  storage4 :: "'a list"

text \<open>
  The sizes given to \<open>view\<close>: a size below \<open>-1\<close> is refused, at most one size may be
  \<open>-1\<close> and is then inferred from the number of elements, and the product of the sizes
  must be the number of elements.
\<close>

definition view_sizes :: "nat \<Rightarrow> int list \<Rightarrow> error + nat list" where
  "view_sizes n sizes =
     (if \<exists>s\<in>set sizes. s < -1 then Inl RuntimeError
      else case filter (\<lambda>s. s = -1) sizes of
        [] \<Rightarrow> if prod_list sizes = int n then Inr (map nat sizes) else Inl RuntimeError
      | [u] \<Rightarrow>
          (let p = prod_list (filter (\<lambda>s. s \<noteq> -1) sizes) in
           if p = 0 \<or> int n mod p \<noteq> 0 then Inl RuntimeError
           else Inr (map (\<lambda>s. if s = -1 then nat (int n div p) else nat s) sizes))
      | u # v # rest \<Rightarrow> Inl RuntimeError)"

definition view4 :: "'a tensor \<Rightarrow> int \<Rightarrow> int \<Rightarrow> int \<Rightarrow> int \<Rightarrow> error + 'a tensor4" where
  "view4 x a b c d =
     bindE (view_sizes (numel x) [a, b, c, d]) (\<lambda>ds.
       Inr \<lparr>dim0 = ds ! 0, dim1 = ds ! 1, dim2 = ds ! 2, dim3 = ds ! 3, storage4 = storage x\<rparr>)"

definition view3 :: "'a tensor4 \<Rightarrow> int \<Rightarrow> int \<Rightarrow> int \<Rightarrow> error + 'a tensor" where
  "view3 x a b c =
     bindE (view_sizes (dim0 x * dim1 x * dim2 x * dim3 x) [a, b, c]) (\<lambda>ds.
       Inr \<lparr>size0 = ds ! 0, size1 = ds ! 1, size2 = ds ! 2, storage = storage4 x\<rparr>)"

text \<open>
  \<open>torch.transpose(x, 1, 2).contiguous()\<close>: dimensions 1 and 2 change places and the
  storage is rewritten in the row-major order of the new shape. Offset \<open>n\<close> of the result
  is element \<open>(b, k, g, t)\<close> of the transposed tensor, which is element \<open>(b, g, k, t)\<close> of
  the argument.
\<close>

definition transpose12_source :: "nat \<Rightarrow> nat \<Rightarrow> nat \<Rightarrow> nat \<Rightarrow> nat" where
  "transpose12_source d1 d2 d3 n =
     (let t = n mod d3; g = (n div d3) mod d1; k = (n div d3 div d1) mod d2;
          b = n div d3 div d1 div d2
      in ((b * d1 + g) * d2 + k) * d3 + t)"

definition transpose12_contiguous :: "'a tensor4 \<Rightarrow> 'a tensor4" where
  "transpose12_contiguous x =
     \<lparr>dim0 = dim0 x, dim1 = dim2 x, dim2 = dim1 x, dim3 = dim3 x,
      storage4 = map (\<lambda>n. storage4 x ! transpose12_source (dim1 x) (dim2 x) (dim3 x) n)
                   [0..<dim0 x * dim2 x * dim1 x * dim3 x]\<rparr>"

record ChannelShuffle1d =
  groups :: int

definition ChannelShuffle1d_init :: "int \<Rightarrow> int \<Rightarrow> error + ChannelShuffle1d" where
  "ChannelShuffle1d_init channels grps =
     (if grps = 0 then Inl ZeroDivisionError
      else if channels mod grps \<noteq> 0 then Inl (ValueError ''channels must be divisible by groups'')
      else Inr \<lparr>groups = grps\<rparr>)"

definition ChannelShuffle1d_forward :: "ChannelShuffle1d \<Rightarrow> 'a tensor \<Rightarrow> error + 'a tensor" where
  "ChannelShuffle1d_forward self x =
     (let batch = int (size0 x); channels = int (size1 x); seq_len = int (size2 x) in
      if ChannelShuffle1d.groups self = 0 then Inl ZeroDivisionError
      else
        let channels_per_group = channels div ChannelShuffle1d.groups self in
        bindE (view4 x batch (ChannelShuffle1d.groups self) channels_per_group seq_len) (\<lambda>x.
          let x = transpose12_contiguous x in
          view3 x batch channels seq_len))"

text \<open>
  The permutation of channel indices that the claim about the shuffle speaks of: with
  \<open>g\<close> groups of \<open>k\<close> channels, output channel \<open>c\<close> shows input channel
  \<open>(c mod g) * k + c div g\<close>.
\<close>

definition shuffle_index :: "nat \<Rightarrow> nat \<Rightarrow> nat \<Rightarrow> nat" where
  "shuffle_index g k c = (c mod g) * k + c div g"

section \<open>Convolution blocks\<close>

text \<open>
  The \<open>activation\<close> argument is \<open>None\<close> or a function that creates \<open>nn.ReLU\<close>; no other
  activation occurs in the file. Python's floats (dropout rates, \<open>bn_eps\<close>) are the real
  numbers their decimal literals denote; the program only compares them with zero and hands
  them to the library.
\<close>

datatype activation = ReLU

record 'a MaskConvBlock1d =
  activate :: bool
  use_bn :: bool
  use_dropout :: bool
  conv :: "'a MaskConv1d"
  bn :: "'a BatchNorm1d option"
  activ :: "activation option"
  dropout :: "real option"

text \<open>
  An attribute that the constructor sets only under a flag is an option; reading it when
  it was not set is Python's \<open>AttributeError\<close>.
\<close>

definition attr :: "'b option \<Rightarrow> error + 'b" where
  "attr a = (case a of None \<Rightarrow> Inl AttributeError | Some v \<Rightarrow> Inr v)"

definition when_new :: "bool \<Rightarrow> (error + 'b) \<Rightarrow> error + 'b option" where
  "when_new c r = (if c then bindE r (\<lambda>v. Inr (Some v)) else Inr None)"

definition MaskConvBlock1d_init ::
  "'a framework \<Rightarrow> int \<Rightarrow> int \<Rightarrow> int \<Rightarrow> int \<Rightarrow> int \<Rightarrow> int \<Rightarrow> int \<Rightarrow> bool \<Rightarrow> bool \<Rightarrow> real
     \<Rightarrow> activation option \<Rightarrow> real \<Rightarrow> error + 'a MaskConvBlock1d" where
  "MaskConvBlock1d_init fw inc outc k s p d g b ubn bn_eps activation dropout_rate =
     (let act = (activation \<noteq> None); udrop = (dropout_rate \<noteq> 0.0) in
      bindE (MaskConv1d_init fw inc outc k s p d g b True) (\<lambda>cv.
      bindE (when_new ubn (BatchNorm1d_new fw outc bn_eps)) (\<lambda>bnm.
      bindE (when_new udrop (Dropout_new fw dropout_rate)) (\<lambda>dr.
        Inr \<lparr>activate = act, use_bn = ubn, use_dropout = udrop, conv = cv, bn = bnm,
             activ = activation, dropout = dr\<rparr>))))"

text \<open>The tail shared by both block classes: normalisation, activation, dropout.\<close>

definition bn_activ_dropout ::
  "'a framework \<Rightarrow> bool \<Rightarrow> 'a BatchNorm1d option \<Rightarrow> bool \<Rightarrow> activation option \<Rightarrow> bool
     \<Rightarrow> real option \<Rightarrow> 'a tensor \<Rightarrow> error + 'a tensor" where
  "bn_activ_dropout fw ubn bnm act actm udrop dr x =
     bindE (if ubn then bindE (attr bnm) (\<lambda>b. batch_norm fw b x) else Inr x) (\<lambda>x.
     bindE (if act then bindE (attr actm) (\<lambda>a. Inr (relu fw x)) else Inr x) (\<lambda>x.
       if udrop then bindE (attr dr) (\<lambda>p. Inr (dropout_apply fw p x)) else Inr x))"

definition MaskConvBlock1d_forward ::
  "'a::zero framework \<Rightarrow> 'a MaskConvBlock1d \<Rightarrow> 'a tensor \<Rightarrow> int list
     \<Rightarrow> error + ('a tensor \<times> int list)" where
  "MaskConvBlock1d_forward fw self x x_len =
     bindE (MaskConv1d_forward fw (conv self) x x_len) (\<lambda>(x, x_len).
     bindE (bn_activ_dropout fw (use_bn self) (bn self) (activate self) (activ self)
              (use_dropout self) (dropout self) x) (\<lambda>x.
       Inr (x, x_len)))"

definition mask_conv1d1 ::
  "'a framework \<Rightarrow> int \<Rightarrow> int \<Rightarrow> int \<Rightarrow> int \<Rightarrow> bool \<Rightarrow> error + 'a MaskConv1d" where
  "mask_conv1d1 fw inc outc s g b = MaskConv1d_init fw inc outc 1 s 0 1 g b True"

definition mask_conv1d1_block ::
  "'a framework \<Rightarrow> int \<Rightarrow> int \<Rightarrow> int \<Rightarrow> int \<Rightarrow> real \<Rightarrow> activation option \<Rightarrow> real
     \<Rightarrow> error + 'a MaskConvBlock1d" where
  "mask_conv1d1_block fw inc outc s p bn_eps activation dropout_rate =
     MaskConvBlock1d_init fw inc outc 1 s p 1 1 False True bn_eps activation dropout_rate"

definition conv1d1 :: "'a framework \<Rightarrow> int \<Rightarrow> int \<Rightarrow> int \<Rightarrow> int \<Rightarrow> bool \<Rightarrow> error + 'a Conv1d" where
  "conv1d1 fw inc outc s g b = Conv1d_init fw inc outc 1 s 0 1 g b"

record 'a DwsConvBlock1d =
  activate :: bool
  use_bn :: bool
  use_dropout :: bool
  use_channel_shuffle :: bool
  dw_conv :: "'a MaskConv1d"
  pw_conv :: "'a MaskConv1d"
  shuffle :: "ChannelShuffle1d option"
  bn :: "'a BatchNorm1d option"
  activ :: "activation option"
  dropout :: "real option"

definition DwsConvBlock1d_init ::
  "'a framework \<Rightarrow> int \<Rightarrow> int \<Rightarrow> int \<Rightarrow> int \<Rightarrow> int \<Rightarrow> int \<Rightarrow> int \<Rightarrow> bool \<Rightarrow> bool \<Rightarrow> real
     \<Rightarrow> activation option \<Rightarrow> real \<Rightarrow> error + 'a DwsConvBlock1d" where
  "DwsConvBlock1d_init fw inc outc k s p d g b ubn bn_eps activation dropout_rate =
     (let act = (activation \<noteq> None); udrop = (dropout_rate \<noteq> 0.0); ushuf = (g > 1) in
      bindE (MaskConv1d_init fw inc inc k s p d inc b True) (\<lambda>dw.
      bindE (mask_conv1d1 fw inc outc 1 g b) (\<lambda>pw.
      bindE (when_new ushuf (ChannelShuffle1d_init outc g)) (\<lambda>sh.
      bindE (when_new ubn (BatchNorm1d_new fw outc bn_eps)) (\<lambda>bnm.
      bindE (when_new udrop (Dropout_new fw dropout_rate)) (\<lambda>dr.
        Inr \<lparr>DwsConvBlock1d.activate = act, use_bn = ubn, use_dropout = udrop,
             use_channel_shuffle = ushuf, dw_conv = dw, pw_conv = pw, shuffle = sh,
             bn = bnm, activ = activation, dropout = dr\<rparr>))))))"

definition DwsConvBlock1d_forward ::
  "'a::zero framework \<Rightarrow> 'a DwsConvBlock1d \<Rightarrow> 'a tensor \<Rightarrow> int list
     \<Rightarrow> error + ('a tensor \<times> int list)" where
  "DwsConvBlock1d_forward fw self x x_len =
     bindE (MaskConv1d_forward fw (dw_conv self) x x_len) (\<lambda>(x, x_len).
     bindE (MaskConv1d_forward fw (pw_conv self) x x_len) (\<lambda>(x, x_len).
     bindE (if use_channel_shuffle self
            then bindE (attr (shuffle self)) (\<lambda>sh. ChannelShuffle1d_forward sh x)
            else Inr x) (\<lambda>x.
     bindE (bn_activ_dropout fw (DwsConvBlock1d.use_bn self) (DwsConvBlock1d.bn self)
              (DwsConvBlock1d.activate self) (DwsConvBlock1d.activ self)
              (DwsConvBlock1d.use_dropout self) (DwsConvBlock1d.dropout self) x) (\<lambda>x.
       Inr (x, x_len)))))"

section \<open>Python lists and containers\<close>

text \<open>\<open>xs[i]\<close>: a negative \<open>i\<close> counts from the end, and an \<open>i\<close> outside the list is an \<open>IndexError\<close>.\<close>

definition getitem :: "'b list \<Rightarrow> int \<Rightarrow> error + 'b" where
  "getitem xs i =
     (if 0 \<le> i \<and> i < int (length xs) then Inr (xs ! nat i)
      else if i < 0 \<and> - int (length xs) \<le> i then Inr (xs ! nat (int (length xs) + i))
      else Inl IndexError)"

text \<open>The slice \<open>xs[1:-2]\<close>.\<close>

definition slice_1_m2 :: "'b list \<Rightarrow> 'b list" where
  "slice_1_m2 xs = drop 1 (take (length xs - 2) xs)"

text \<open>
  Modelled from the spec: \<open>DualPathSequential\<close> is imported from the package's
  \<open>common\<close> module, which is not among the sources. The specification says that the
  components are applied in order, each consuming and producing a (tensor, length) pair.
\<close>

fun DualPathSequential_forward ::
  "('m \<Rightarrow> 't \<Rightarrow> 'l \<Rightarrow> error + ('t \<times> 'l)) \<Rightarrow> 'm list \<Rightarrow> 't \<Rightarrow> 'l \<Rightarrow> error + ('t \<times> 'l)" where
  "DualPathSequential_forward f [] x x_len = Inr (x, x_len)"
| "DualPathSequential_forward f (m # ms) x x_len =
     bindE (f m x x_len) (\<lambda>(x, x_len). DualPathSequential_forward f ms x x_len)"

text \<open>
  Modelled from the spec: \<open>DualPathParallelConcurent\<close> is imported from the package's
  \<open>common\<close> module, which is not among the sources. The specification says that each
  prior (tensor, length) pair is projected independently by its own block; the outputs
  are returned as two lists.
\<close>

fun DualPathParallelConcurent_forward ::
  "('m \<Rightarrow> 't \<Rightarrow> 'l \<Rightarrow> error + ('t \<times> 'l)) \<Rightarrow> 'm list \<Rightarrow> 't list \<Rightarrow> 'l list
     \<Rightarrow> error + ('t list \<times> 'l list)" where
  "DualPathParallelConcurent_forward f (m # ms) (y # ys) (l # ls) =
     bindE (f m y l) (\<lambda>(y1, l1).
     bindE (DualPathParallelConcurent_forward f ms ys ls) (\<lambda>(ys1, ls1).
       Inr (y1 # ys1, l1 # ls1)))"
| "DualPathParallelConcurent_forward f ms ys ls = Inr ([], [])"

section \<open>Jasper unit\<close>

text \<open>
  The length argument that travels with the tensor: the length vector itself, or, in
  dense-residual mode, the tuple of the running length vector, the tensors of all prior
  units and their length vectors.
\<close>

datatype 'a len_arg =
    Len "int list"
  | Acc "int list" "'a tensor list" "int list list"

text \<open>\<open>block_class\<close>, \<open>conv1_class\<close>, \<open>init_block_class\<close>: one of the two block classes.\<close>

datatype 'a block =
    Plain "'a MaskConvBlock1d"
  | Dws "'a DwsConvBlock1d"

definition block_class ::
  "bool \<Rightarrow> 'a framework \<Rightarrow> int \<Rightarrow> int \<Rightarrow> int \<Rightarrow> int \<Rightarrow> int \<Rightarrow> int \<Rightarrow> int \<Rightarrow> bool \<Rightarrow> bool \<Rightarrow> real
     \<Rightarrow> activation option \<Rightarrow> real \<Rightarrow> error + 'a block" where
  "block_class use_dw fw inc outc k s p d g b ubn bn_eps activation dropout_rate =
     (if use_dw
      then bindE (DwsConvBlock1d_init fw inc outc k s p d g b ubn bn_eps activation dropout_rate)
             (\<lambda>blk. Inr (Dws blk))
      else bindE (MaskConvBlock1d_init fw inc outc k s p d g b ubn bn_eps activation dropout_rate)
             (\<lambda>blk. Inr (Plain blk)))"

definition block_forward ::
  "'a::zero framework \<Rightarrow> 'a block \<Rightarrow> 'a tensor \<Rightarrow> int list \<Rightarrow> error + ('a tensor \<times> int list)" where
  "block_forward fw blk x x_len =
     (case blk of Plain m \<Rightarrow> MaskConvBlock1d_forward fw m x x_len
      | Dws m \<Rightarrow> DwsConvBlock1d_forward fw m x x_len)"

text \<open>The \<open>in_channels\<close> argument of a unit: an integer, or a list of integers.\<close>

datatype in_channels_arg =
    Chan int
  | ChanList "int list"

datatype 'a identity_block =
    Single "'a MaskConvBlock1d"
  | Parallel "'a MaskConvBlock1d list"

record 'a JasperUnit =
  use_dropout :: bool
  use_dr :: bool
  identity_block :: "'a identity_block"
  body :: "'a block list"
  activ :: activation
  dropout :: "real option"

fun JasperUnit_identity_blocks ::
  "'a framework \<Rightarrow> int \<Rightarrow> real \<Rightarrow> int list \<Rightarrow> error + 'a MaskConvBlock1d list" where
  "JasperUnit_identity_blocks fw outc bn_eps [] = Inr []"
| "JasperUnit_identity_blocks fw outc bn_eps (dense_in_channels_i # rest) =
     bindE (mask_conv1d1_block fw dense_in_channels_i outc 1 0 bn_eps None 0.0) (\<lambda>blk.
     bindE (JasperUnit_identity_blocks fw outc bn_eps rest) (\<lambda>blks. Inr (blk # blks)))"

text \<open>
  The loop \<open>for i in range(repeat)\<close> that builds the body; \<open>inc\<close> is the loop's
  \<open>in_channels\<close>, which is \<open>out_channels\<close> after the first round.
\<close>

fun JasperUnit_body ::
  "'a framework \<Rightarrow> bool \<Rightarrow> int \<Rightarrow> int \<Rightarrow> real \<Rightarrow> real \<Rightarrow> int \<Rightarrow> int \<Rightarrow> nat list
     \<Rightarrow> error + 'a block list" where
  "JasperUnit_body fw use_dw outc k bn_eps dropout_rate repeat inc [] = Inr []"
| "JasperUnit_body fw use_dw outc k bn_eps dropout_rate repeat inc (i # rest) =
     (let activation = (if int i < repeat - 1 then Some ReLU else None);
          dropout_rate_i = (if int i < repeat - 1 then dropout_rate else 0.0) in
      bindE (block_class use_dw fw inc outc k 1 (k div 2) 1 1 False True bn_eps activation
               dropout_rate_i) (\<lambda>blk.
      bindE (JasperUnit_body fw use_dw outc k bn_eps dropout_rate repeat outc rest) (\<lambda>blks.
        Inr (blk # blks))))"

definition JasperUnit_init ::
  "'a framework \<Rightarrow> in_channels_arg \<Rightarrow> int \<Rightarrow> int \<Rightarrow> real \<Rightarrow> real \<Rightarrow> int \<Rightarrow> bool \<Rightarrow> bool
     \<Rightarrow> error + 'a JasperUnit" where
  "JasperUnit_init fw in_chs outc k bn_eps dropout_rate repeat use_dw udr =
     (let udrop = (dropout_rate \<noteq> 0.0) in
      bindE (if udr then
               (case in_chs of
                  ChanList cs \<Rightarrow>
                    bindE (JasperUnit_identity_blocks fw outc bn_eps cs) (\<lambda>blks.
                    bindE (getitem cs (-1)) (\<lambda>inc. Inr (Parallel blks, inc)))
                | Chan c \<Rightarrow> Inl TypeError)
             else
               (case in_chs of
                  Chan c \<Rightarrow>
                    bindE (mask_conv1d1_block fw c outc 1 0 bn_eps None 0.0) (\<lambda>blk.
                      Inr (Single blk, c))
                | ChanList cs \<Rightarrow> Inl TypeError)) (\<lambda>(idb, inc).
      bindE (JasperUnit_body fw use_dw outc k bn_eps dropout_rate repeat inc [0..<nat repeat])
        (\<lambda>bd.
      bindE (when_new udrop (Dropout_new fw dropout_rate)) (\<lambda>dr.
        Inr \<lparr>use_dropout = udrop, use_dr = udr, identity_block = idb, body = bd,
             activ = ReLU, dropout = dr\<rparr>))))"

text \<open>
  The forward pass of a unit. The constructor pairs \<open>use_dr\<close> with a parallel identity
  block and its absence with a single one; a unit put together otherwise fails where
  Python would (a single block called with lists, a parallel container called with a
  tensor).
\<close>

definition JasperUnit_forward ::
  "'a::zero framework \<Rightarrow> 'a JasperUnit \<Rightarrow> 'a tensor \<Rightarrow> 'a len_arg
     \<Rightarrow> error + ('a tensor \<times> 'a len_arg)" where
  "JasperUnit_forward fw self x x_len_arg =
     bindE (if use_dr self then
              (let (x_len, y, y_len) =
                     (case x_len_arg of
                        Acc l ys ls \<Rightarrow> (l, ys @ [x], ls @ [l])
                      | Len l \<Rightarrow> (l, [x], [l])) in
               bindE (case identity_block self of
                        Parallel ms \<Rightarrow>
                          DualPathParallelConcurent_forward (MaskConvBlock1d_forward fw) ms y y_len
                      | Single m \<Rightarrow> Inl AttributeError) (\<lambda>(identity, u).
               bindE (stack_sum fw identity) (\<lambda>identity.
                 Inr (identity, x_len, Some (y, y_len)))))
            else
              (case x_len_arg of
                 Len x_len \<Rightarrow>
                   bindE (case identity_block self of
                            Single m \<Rightarrow> MaskConvBlock1d_forward fw m x x_len
                          | Parallel ms \<Rightarrow> Inl TypeError) (\<lambda>(identity, u).
                     Inr (identity, x_len, None))
               | Acc l ys ls \<Rightarrow> Inl AttributeError)) (\<lambda>(identity, x_len, acc).
     bindE (DualPathSequential_forward (block_forward fw) (body self) x x_len) (\<lambda>(x, x_len).
     bindE (tensor_add fw x identity) (\<lambda>x.
       let x = relu fw x in
       bindE (if JasperUnit.use_dropout self
              then bindE (attr (JasperUnit.dropout self)) (\<lambda>p. Inr (dropout_apply fw p x))
              else Inr x) (\<lambda>x.
         case acc of
           Some (y, y_len) \<Rightarrow> Inr (x, Acc x_len y y_len)
         | None \<Rightarrow> Inr (x, Len x_len)))))"

section \<open>Jasper final block\<close>

record 'a JasperFinalBlock =
  use_dr :: bool
  conv1 :: "'a block"
  conv2 :: "'a MaskConvBlock1d"

definition JasperFinalBlock_init ::
  "'a framework \<Rightarrow> int \<Rightarrow> int list \<Rightarrow> int list \<Rightarrow> real \<Rightarrow> real list \<Rightarrow> bool \<Rightarrow> bool
     \<Rightarrow> error + 'a JasperFinalBlock" where
  "JasperFinalBlock_init fw inc channels kernel_sizes bn_eps dropout_rates use_dw udr =
     bindE (getitem channels (-2)) (\<lambda>c2.
     bindE (getitem kernel_sizes (-2)) (\<lambda>k2.
     bindE (getitem dropout_rates (-2)) (\<lambda>d2.
     bindE (block_class use_dw fw inc c2 k2 1 ((2 * k2) div 2 - 1) 2 1 False True bn_eps
              (Some ReLU) d2) (\<lambda>c1blk.
     bindE (getitem channels (-1)) (\<lambda>c1.
     bindE (getitem kernel_sizes (-1)) (\<lambda>k1.
     bindE (getitem dropout_rates (-1)) (\<lambda>d1.
     bindE (MaskConvBlock1d_init fw c2 c1 k1 1 (k1 div 2) 1 1 False True bn_eps (Some ReLU) d1)
       (\<lambda>c2blk.
         Inr \<lparr>use_dr = udr, conv1 = c1blk, conv2 = c2blk\<rparr>))))))))"

text \<open>The two convolution blocks of the final block, on a tensor and a length vector.\<close>

definition JasperFinalBlock_convs ::
  "'a::zero framework \<Rightarrow> 'a JasperFinalBlock \<Rightarrow> 'a tensor \<Rightarrow> int list
     \<Rightarrow> error + ('a tensor \<times> 'a len_arg)" where
  "JasperFinalBlock_convs fw self x x_len =
     bindE (block_forward fw (conv1 self) x x_len) (\<lambda>(x, x_len).
     bindE (MaskConvBlock1d_forward fw (conv2 self) x x_len) (\<lambda>(x, x_len).
       Inr (x, Len x_len)))"

text \<open>
  \<open>x_len[0]\<close> of the accumulated tuple is the running length vector. Of a length vector
  it is a scalar, on which the first convolution fails when it takes \<open>len(x_len)\<close>; of an
  empty length vector it is an \<open>IndexError\<close>. Without dense residuals a tuple reaches the
  convolution, which fails at \<open>x_len.to\<close>.
\<close>

definition JasperFinalBlock_forward ::
  "'a::zero framework \<Rightarrow> 'a JasperFinalBlock \<Rightarrow> 'a tensor \<Rightarrow> 'a len_arg
     \<Rightarrow> error + ('a tensor \<times> 'a len_arg)" where
  "JasperFinalBlock_forward fw self x x_len_arg =
     bindE (if JasperFinalBlock.use_dr self then
              (case x_len_arg of
                 Acc l ys ls \<Rightarrow> Inr l
               | Len l \<Rightarrow> if l = [] then Inl IndexError else Inl TypeError)
            else
              (case x_len_arg of
                 Len l \<Rightarrow> Inr l
               | Acc l ys ls \<Rightarrow> Inl AttributeError)) (\<lambda>x_len.
       JasperFinalBlock_convs fw self x x_len)"

section \<open>Jasper\<close>

datatype 'a feature =
    InitBlock "'a block"
  | Unit "'a JasperUnit"
  | FinalBlock "'a JasperFinalBlock"

record 'a Jasper =
  in_size :: "(nat \<times> nat) option"
  num_classes :: int
  features :: "(string \<times> 'a feature) list"
  output_conv :: "'a Conv1d"

text \<open>Decimal digits of a natural number, for the names \<open>unit1\<close>, \<open>unit2\<close>, ...\<close>

fun str_nat :: "nat \<Rightarrow> string" where
  "str_nat n =
     (if n < 10 then [''0123456789'' ! n]
      else str_nat (n div 10) @ [''0123456789'' ! (n mod 10)])"

declare str_nat.simps [simp del]

text \<open>
  The loop over \<open>zip(channels[1:-2], kernel_sizes[1:-2], dropout_rates[1:-2])\<close>. Its state
  is \<open>in_channels\<close> and \<open>in_channels_list\<close>; it returns the named units and the last
  \<open>in_channels\<close>.
\<close>

fun Jasper_units ::
  "'a framework \<Rightarrow> real \<Rightarrow> int \<Rightarrow> bool \<Rightarrow> bool \<Rightarrow> int \<Rightarrow> int list \<Rightarrow> nat
     \<Rightarrow> (int \<times> int \<times> real) list \<Rightarrow> error + ((string \<times> 'a feature) list \<times> int)" where
  "Jasper_units fw bn_eps repeat use_dw udr inc in_channels_list i [] = Inr ([], inc)"
| "Jasper_units fw bn_eps repeat use_dw udr inc in_channels_list i
     ((outc, k, dropout_rate) # rest) =
     (let in_channels_list = in_channels_list @ [inc] in
      bindE (JasperUnit_init fw (if udr then ChanList in_channels_list else Chan inc) outc k
               bn_eps dropout_rate repeat use_dw udr) (\<lambda>u.
      bindE (Jasper_units fw bn_eps repeat use_dw udr outc in_channels_list (i + 1) rest)
        (\<lambda>(us, last_channels).
          Inr ((''unit'' @ str_nat (i + 1), Unit u) # us, last_channels))))"

subsection \<open>Parameter initialisation\<close>

text \<open>
  The classes of the modules, with their base classes inside the library. \<open>mro\<close> lists a
  class and its ancestors; \<open>isinstance\<close> looks the target class up there.
\<close>

datatype class_name =
    C_Module | C_ConvNd | C_Conv1d | C_Conv2d | C_MaskConv1d
  | C_NormBase | C_BatchNorm | C_BatchNorm1d | C_ReLU | C_DropoutNd | C_Dropout
  | C_Sequential | C_DualPathSequential | C_DualPathParallelConcurent
  | C_MaskConvBlock1d | C_ChannelShuffle1d | C_DwsConvBlock1d
  | C_JasperUnit | C_JasperFinalBlock | C_Jasper

fun mro :: "class_name \<Rightarrow> class_name list" where
  "mro C_Module = [C_Module]"
| "mro C_ConvNd = [C_ConvNd, C_Module]"
| "mro C_Conv1d = [C_Conv1d, C_ConvNd, C_Module]"
| "mro C_Conv2d = [C_Conv2d, C_ConvNd, C_Module]"
| "mro C_MaskConv1d = [C_MaskConv1d, C_Conv1d, C_ConvNd, C_Module]"
| "mro C_NormBase = [C_NormBase, C_Module]"
| "mro C_BatchNorm = [C_BatchNorm, C_NormBase, C_Module]"
| "mro C_BatchNorm1d = [C_BatchNorm1d, C_BatchNorm, C_NormBase, C_Module]"
| "mro C_ReLU = [C_ReLU, C_Module]"
| "mro C_DropoutNd = [C_DropoutNd, C_Module]"
| "mro C_Dropout = [C_Dropout, C_DropoutNd, C_Module]"
| "mro C_Sequential = [C_Sequential, C_Module]"
| "mro C_DualPathSequential = [C_DualPathSequential, C_Sequential, C_Module]"
| "mro C_DualPathParallelConcurent = [C_DualPathParallelConcurent, C_Sequential, C_Module]"
| "mro C_MaskConvBlock1d = [C_MaskConvBlock1d, C_Module]"
| "mro C_ChannelShuffle1d = [C_ChannelShuffle1d, C_Module]"
| "mro C_DwsConvBlock1d = [C_DwsConvBlock1d, C_Module]"
| "mro C_JasperUnit = [C_JasperUnit, C_Module]"
| "mro C_JasperFinalBlock = [C_JasperFinalBlock, C_Module]"
| "mro C_Jasper = [C_Jasper, C_Module]"

definition isinstance :: "class_name \<Rightarrow> class_name \<Rightarrow> bool" where
  "isinstance cls target = (target \<in> set (mro cls))"

text \<open>The classes of which this file creates instances.\<close>

definition instantiated_classes :: "class_name list" where
  "instantiated_classes =
     [C_Conv1d, C_MaskConv1d, C_BatchNorm1d, C_ReLU, C_Dropout, C_DualPathSequential,
      C_DualPathParallelConcurent, C_MaskConvBlock1d, C_ChannelShuffle1d, C_DwsConvBlock1d,
      C_JasperUnit, C_JasperFinalBlock, C_Jasper]"

text \<open>
  The body of the loop of \<open>_init_params\<close> for one module of class \<open>cls\<close> that owns a
  weight of the given shape and possibly a bias.
\<close>

definition init_params_body ::
  "'a framework \<Rightarrow> class_name \<Rightarrow> 'a tensor \<Rightarrow> 'a list option \<Rightarrow> 'a tensor \<times> 'a list option" where
  "init_params_body fw cls w b =
     (if isinstance cls C_Conv2d
      then (kaiming_uniform fw w, map_option (constant_init fw) b)
      else (w, b))"

definition conv_init_params ::
  "'a framework \<Rightarrow> class_name \<Rightarrow> ('a, 'b) Conv1d_scheme \<Rightarrow> ('a, 'b) Conv1d_scheme" where
  "conv_init_params fw cls c =
     (let (w, b) = init_params_body fw cls (weight c) (bias c) in c\<lparr>weight := w, bias := b\<rparr>)"

definition bn_init_params :: "'a framework \<Rightarrow> 'a BatchNorm1d \<Rightarrow> 'a BatchNorm1d" where
  "bn_init_params fw m =
     (let (w, b) = init_params_body fw C_BatchNorm1d
                     \<lparr>size0 = length (bn_weight m), size1 = 1, size2 = 1, storage = bn_weight m\<rparr>
                     (Some (bn_bias m))
      in m\<lparr>bn_weight := storage w, bn_bias := (case b of Some v \<Rightarrow> v | None \<Rightarrow> bn_bias m)\<rparr>)"

text \<open>
  \<open>named_modules\<close> reaches every module of the model. The loop is written here as a walk
  through the structure that applies the loop body to each module owning parameters: the
  masked convolutions, the output convolution and the batch normalisations. The other
  modules own no parameter.
\<close>

definition MaskConvBlock1d_init_params ::
  "'a framework \<Rightarrow> 'a MaskConvBlock1d \<Rightarrow> 'a MaskConvBlock1d" where
  "MaskConvBlock1d_init_params fw m =
     m\<lparr>conv := conv_init_params fw C_MaskConv1d (conv m),
       MaskConvBlock1d.bn := map_option (bn_init_params fw) (MaskConvBlock1d.bn m)\<rparr>"

definition DwsConvBlock1d_init_params ::
  "'a framework \<Rightarrow> 'a DwsConvBlock1d \<Rightarrow> 'a DwsConvBlock1d" where
  "DwsConvBlock1d_init_params fw m =
     m\<lparr>dw_conv := conv_init_params fw C_MaskConv1d (dw_conv m),
       pw_conv := conv_init_params fw C_MaskConv1d (pw_conv m),
       DwsConvBlock1d.bn := map_option (bn_init_params fw) (DwsConvBlock1d.bn m)\<rparr>"

definition block_init_params :: "'a framework \<Rightarrow> 'a block \<Rightarrow> 'a block" where
  "block_init_params fw blk =
     (case blk of Plain m \<Rightarrow> Plain (MaskConvBlock1d_init_params fw m)
      | Dws m \<Rightarrow> Dws (DwsConvBlock1d_init_params fw m))"

definition JasperUnit_init_params :: "'a framework \<Rightarrow> 'a JasperUnit \<Rightarrow> 'a JasperUnit" where
  "JasperUnit_init_params fw u =
     u\<lparr>identity_block :=
         (case identity_block u of
            Single m \<Rightarrow> Single (MaskConvBlock1d_init_params fw m)
          | Parallel ms \<Rightarrow> Parallel (map (MaskConvBlock1d_init_params fw) ms)),
       body := map (block_init_params fw) (body u)\<rparr>"

definition JasperFinalBlock_init_params ::
  "'a framework \<Rightarrow> 'a JasperFinalBlock \<Rightarrow> 'a JasperFinalBlock" where
  "JasperFinalBlock_init_params fw m =
     m\<lparr>conv1 := block_init_params fw (conv1 m),
       conv2 := MaskConvBlock1d_init_params fw (conv2 m)\<rparr>"

definition feature_init_params :: "'a framework \<Rightarrow> 'a feature \<Rightarrow> 'a feature" where
  "feature_init_params fw f =
     (case f of InitBlock b \<Rightarrow> InitBlock (block_init_params fw b)
      | Unit u \<Rightarrow> Unit (JasperUnit_init_params fw u)
      | FinalBlock m \<Rightarrow> FinalBlock (JasperFinalBlock_init_params fw m))"

definition Jasper_init_params :: "'a framework \<Rightarrow> 'a Jasper \<Rightarrow> 'a Jasper" where
  "Jasper_init_params fw self =
     self\<lparr>features := map (\<lambda>(name, f). (name, feature_init_params fw f)) (features self),
          output_conv := conv_init_params fw C_Conv1d (output_conv self)\<rparr>"

subsection \<open>Constructor and forward pass\<close>

definition Jasper_init ::
  "'a framework \<Rightarrow> int list \<Rightarrow> int list \<Rightarrow> real \<Rightarrow> real list \<Rightarrow> int \<Rightarrow> bool \<Rightarrow> bool \<Rightarrow> int \<Rightarrow> int
     \<Rightarrow> error + 'a Jasper" where
  "Jasper_init fw channels kernel_sizes bn_eps dropout_rates repeat use_dw udr inc ncls =
     bindE (getitem channels 0) (\<lambda>c0.
     bindE (getitem kernel_sizes 0) (\<lambda>k0.
     bindE (getitem dropout_rates 0) (\<lambda>d0.
     bindE (block_class use_dw fw inc c0 k0 2 (k0 div 2) 1 1 False True bn_eps (Some ReLU) d0)
       (\<lambda>init_block.
     bindE (Jasper_units fw bn_eps repeat use_dw udr c0 [] 0
              (zip (slice_1_m2 channels) (zip (slice_1_m2 kernel_sizes)
                 (slice_1_m2 dropout_rates)))) (\<lambda>(units, inc).
     bindE (JasperFinalBlock_init fw inc channels kernel_sizes bn_eps dropout_rates use_dw udr)
       (\<lambda>final_block.
     bindE (getitem channels (-1)) (\<lambda>inc.
     bindE (conv1d1 fw inc ncls 1 1 True) (\<lambda>out.
       Inr (Jasper_init_params fw
              \<lparr>in_size = None, num_classes = ncls,
               features = [(''init_block'', InitBlock init_block)] @ units
                            @ [(''final_block'', FinalBlock final_block)],
               output_conv = out\<rparr>)))))))))"

definition feature_forward ::
  "'a::zero framework \<Rightarrow> 'a feature \<Rightarrow> 'a tensor \<Rightarrow> 'a len_arg
     \<Rightarrow> error + ('a tensor \<times> 'a len_arg)" where
  "feature_forward fw f x x_len_arg =
     (case f of
        InitBlock b \<Rightarrow>
          (case x_len_arg of
             Len x_len \<Rightarrow> bindE (block_forward fw b x x_len) (\<lambda>(x, x_len). Inr (x, Len x_len))
           | Acc l ys ls \<Rightarrow> Inl AttributeError)
      | Unit u \<Rightarrow> JasperUnit_forward fw u x x_len_arg
      | FinalBlock m \<Rightarrow> JasperFinalBlock_forward fw m x x_len_arg)"

definition Conv1d_forward :: "'a framework \<Rightarrow> 'a Conv1d \<Rightarrow> 'a tensor \<Rightarrow> error + 'a tensor" where
  "Conv1d_forward fw c x =
     F_conv1d fw x (weight c) (bias c) (stride c) (padding c) (dilation c) (Conv1d.groups c)"

definition Jasper_forward ::
  "'a::zero framework \<Rightarrow> 'a Jasper \<Rightarrow> 'a tensor \<Rightarrow> 'a len_arg
     \<Rightarrow> error + ('a tensor \<times> 'a len_arg)" where
  "Jasper_forward fw self x x_len =
     bindE (DualPathSequential_forward (feature_forward fw) (map snd (features self)) x x_len)
       (\<lambda>(x, x_len).
     bindE (Conv1d_forward fw (output_conv self) x) (\<lambda>x. Inr (x, x_len)))"

section \<open>The factory\<close>

text \<open>
  \<open>version.split("x")\<close>: the pieces between the occurrences of the letter x; there is
  always at least one piece.
\<close>

fun split_x :: "string \<Rightarrow> string list" where
  "split_x [] = [[]]"
| "split_x (c # cs) =
     (if c = CHR ''x'' then [] # split_x cs
      else (case split_x cs of [] \<Rightarrow> [[c]] | p # ps \<Rightarrow> (c # p) # ps))"

text \<open>
  \<open>int(s)\<close> on a string of characters with code points below 256: blanks around the
  numeral are dropped, a sign may come first, and the digits may be separated by single
  underscores. The blanks are space, tab, line feed, vertical tab, form feed and carriage
  return, and the two blanks beyond ASCII, \<open>0x85\<close> and \<open>0xA0\<close>, which \<open>int\<close> turns
  into spaces first; the separators \<open>0x1C\<close> to \<open>0x1F\<close> are not among them. A numeral
  of more than 4300 digits is refused (the default limit of the interpreter), before the
  characters after the numeral are looked at. Anything else that is not a numeral is a
  \<open>ValueError\<close> too.
\<close>

definition is_space :: "char \<Rightarrow> bool" where
  "is_space c = (c \<in> set [CHR '' '', CHR 0x09, CHR 0x0A, CHR 0x0B, CHR 0x0C, CHR 0x0D,
                           CHR 0x85, CHR 0xA0])"

definition is_digit :: "char \<Rightarrow> bool" where
  "is_digit c = (c \<in> set ''0123456789'')"

definition digit_value :: "char \<Rightarrow> int" where
  "digit_value c = int (of_char c) - 48"

definition strip :: "string \<Rightarrow> string" where
  "strip s = rev (dropWhile is_space (rev (dropWhile is_space s)))"

fun underscores_ok :: "string \<Rightarrow> bool" where
  "underscores_ok [] = False"
| "underscores_ok [c] = is_digit c"
| "underscores_ok (c # d # cs) =
     (is_digit c \<and> (if d = CHR ''_'' then underscores_ok cs else underscores_ok (d # cs)))"

definition py_int :: "string \<Rightarrow> error + int" where
  "py_int s =
     (let t = strip s;
          (sign, rest) = (case t of
                            c # cs \<Rightarrow> if c = CHR ''-'' then (- 1, cs)
                                      else if c = CHR ''+'' then (1, cs) else (1, t)
                          | [] \<Rightarrow> (1, t));
          digits = takeWhile (\<lambda>c. is_digit c \<or> c = CHR ''_'') rest in
      if \<not> underscores_ok digits
      then Inl (ValueError ''invalid literal for int() with base 10'')
      else if 4300 < length (filter is_digit digits)
      then Inl (ValueError ''Exceeds the limit (4300 digits) for integer string conversion'')
      else if digits \<noteq> rest
      then Inl (ValueError ''invalid literal for int() with base 10'')
      else Inr (sign * foldl (\<lambda>a c. 10 * a + digit_value c) 0
                         (filter (\<lambda>c. c \<noteq> CHR ''_'') digits)))"

fun map_py_int :: "string list \<Rightarrow> error + int list" where
  "map_py_int [] = Inr []"
| "map_py_int (s # ss) =
     bindE (py_int s) (\<lambda>v. bindE (map_py_int ss) (\<lambda>vs. Inr (v # vs)))"

text \<open>\<open>blocks, repeat = tuple(map(int, version.split("x")))\<close>\<close>

definition parse_version :: "string \<Rightarrow> error + (int \<times> int)" where
  "parse_version version =
     bindE (map_py_int (split_x version)) (\<lambda>vs.
       case vs of
         [blocks, repeat] \<Rightarrow> Inr (blocks, repeat)
       | [] \<Rightarrow> Inl (ValueError ''not enough values to unpack'')
       | [v] \<Rightarrow> Inl (ValueError ''not enough values to unpack'')
       | u # v # w # rest \<Rightarrow> Inl (ValueError ''too many values to unpack''))"

definition channels_per_stage :: "int list" where
  "channels_per_stage = [256, 256, 384, 512, 640, 768, 896, 1024]"

definition kernel_sizes_per_stage :: "int list" where
  "kernel_sizes_per_stage = [11, 11, 13, 17, 21, 25, 29, 1]"

definition dropout_rates_per_stage :: "real list" where
  "dropout_rates_per_stage = [0.2, 0.2, 0.2, 0.2, 0.3, 0.3, 0.4, 0.4]"

text \<open>
  \<open>stage_repeat = np.full((8,), 1); stage_repeat[1:-2] *= main_stage_repeat\<close>. The array
  holds signed 64-bit integers: the multiplication in place refuses a Python integer
  outside that range with \<open>OverflowError\<close>, and multiplies the entries otherwise.
\<close>

definition stage_repeat :: "int \<Rightarrow> error + int list" where
  "stage_repeat main_stage_repeat =
     (let ones = replicate 8 (1::int) in
      if fits64 main_stage_repeat
      then Inr (take 1 ones @ map (\<lambda>r. wrap64 (r * main_stage_repeat)) (slice_1_m2 ones)
                  @ drop (length ones - 2) ones)
      else Inl OverflowError)"

text \<open>
  The expansion \<open>sum([[a] * r for (a, r) in zip(table, stage_repeat)], [])\<close>. A list times
  a number that is not positive is the empty list. Lists have no bound on their length:
  the memory of the machine is not part of the model.
\<close>

definition expand_table :: "'b list \<Rightarrow> int list \<Rightarrow> 'b list" where
  "expand_table table reps = concat (map (\<lambda>(a, r). replicate (nat r) a) (zip table reps))"

record jasper_args =
  arg_channels :: "int list"
  arg_kernel_sizes :: "int list"
  arg_dropout_rates :: "real list"
  arg_repeat :: int
  arg_use_dw :: bool
  arg_use_dr :: bool

text \<open>The arguments that \<open>get_jasper\<close> computes from the version string.\<close>

definition get_jasper_args :: "string \<Rightarrow> error + jasper_args" where
  "get_jasper_args version =
     bindE (parse_version version) (\<lambda>(blocks, repeat).
       let main_stage_repeat = blocks div 5 in
       bindE (stage_repeat main_stage_repeat) (\<lambda>reps.
       Inr \<lparr>arg_channels = expand_table channels_per_stage reps,
            arg_kernel_sizes = expand_table kernel_sizes_per_stage reps,
            arg_dropout_rates = expand_table dropout_rates_per_stage reps,
            arg_repeat = repeat,
            arg_use_dw = False,
            arg_use_dr = False\<rparr>))"

text \<open>The model that \<open>get_jasper\<close> constructs before it looks at \<open>pretrained\<close>.\<close>

definition get_jasper_net ::
  "'a framework \<Rightarrow> string \<Rightarrow> real \<Rightarrow> int \<Rightarrow> int \<Rightarrow> error + 'a Jasper" where
  "get_jasper_net fw version bn_eps inc ncls =
     bindE (get_jasper_args version) (\<lambda>a.
       Jasper_init fw (arg_channels a) (arg_kernel_sizes a) bn_eps (arg_dropout_rates a)
         (arg_repeat a) (arg_use_dw a) (arg_use_dr a) inc ncls)"

text \<open>
  Loading pretrained weights is the work of \<open>download_model\<close> from the package's model
  store, a parameter here. The result of \<open>get_jasper\<close> comes with the list of downloads it
  attempted.
\<close>

datatype event = Download string string

definition model_name_error :: error where
  "model_name_error = ValueError
     ''Parameter `model_name` should be properly initialized for loading pretrained model.''"

definition get_jasper ::
  "'a framework \<Rightarrow> ('a Jasper \<Rightarrow> string \<Rightarrow> string \<Rightarrow> error + 'a Jasper)
     \<Rightarrow> string \<Rightarrow> real \<Rightarrow> string option \<Rightarrow> bool \<Rightarrow> string \<Rightarrow> int \<Rightarrow> int
     \<Rightarrow> event list \<times> (error + 'a Jasper)" where
  "get_jasper fw download_model version bn_eps model_name pretrained root_dir inc ncls =
     (case get_jasper_net fw version bn_eps inc ncls of
        Inl e \<Rightarrow> ([], Inl e)
      | Inr net \<Rightarrow>
          if pretrained then
            (case model_name of
               None \<Rightarrow> ([], Inl model_name_error)
             | Some name \<Rightarrow>
                 if name = [] then ([], Inl model_name_error)
                 else ([Download name root_dir], download_model net name root_dir))
          else ([], Inr net))"

definition default_root :: string where
  "default_root = ''~/.torch/models''"

definition jasper5x3 ::
  "'a framework \<Rightarrow> ('a Jasper \<Rightarrow> string \<Rightarrow> string \<Rightarrow> error + 'a Jasper) \<Rightarrow> bool \<Rightarrow> string \<Rightarrow> int \<Rightarrow> int
     \<Rightarrow> event list \<times> (error + 'a Jasper)" where
  "jasper5x3 fw download_model pretrained root_dir inc ncls =
     get_jasper fw download_model ''5x3'' 0.001 (Some ''jasper5x3'') pretrained root_dir inc ncls"

definition jasper10x4 ::
  "'a framework \<Rightarrow> ('a Jasper \<Rightarrow> string \<Rightarrow> string \<Rightarrow> error + 'a Jasper) \<Rightarrow> bool \<Rightarrow> string \<Rightarrow> int \<Rightarrow> int
     \<Rightarrow> event list \<times> (error + 'a Jasper)" where
  "jasper10x4 fw download_model pretrained root_dir inc ncls =
     get_jasper fw download_model ''10x4'' 0.001 (Some ''jasper10x4'') pretrained root_dir inc ncls"

definition jasper10x5 ::
  "'a framework \<Rightarrow> ('a Jasper \<Rightarrow> string \<Rightarrow> string \<Rightarrow> error + 'a Jasper) \<Rightarrow> bool \<Rightarrow> string \<Rightarrow> int \<Rightarrow> int
     \<Rightarrow> event list \<times> (error + 'a Jasper)" where
  "jasper10x5 fw download_model pretrained root_dir inc ncls =
     get_jasper fw download_model ''10x5'' 0.001 (Some ''jasper10x5'') pretrained root_dir inc ncls"

text \<open>
  The expansion as the specification words it: the first stage once, each of the five
  middle stages repeated, the last two stages once.
\<close>

definition expand_stages_spec :: "nat \<Rightarrow> 'b list \<Rightarrow> 'b list" where
  "expand_stages_spec m table =
     [table ! 0]
     @ concat (map (\<lambda>i. replicate m (table ! i)) [1, 2, 3, 4, 5])
     @ [table ! 6, table ! 7]"

section \<open>A reference instance of the library\<close>

text \<open>
  An instance of the library record that computes shapes only: every value is zero, the
  convolution returns a tensor of the documented output size and refuses arguments the
  library refuses. The constructor of the convolution refuses a group count that is not
  positive or does not divide both channel counts, with the messages of \<open>nn.Conv1d\<close>, and
  a negative size; the dropout constructor refuses a rate outside \<open>[0, 1]\<close>. It serves as
  the concrete library of the examples.
\<close>

definition zero_values :: "nat \<Rightarrow> 'a::zero list" where
  "zero_values n = replicate n 0"

definition zeros :: "nat \<Rightarrow> nat \<Rightarrow> nat \<Rightarrow> 'a::zero tensor" where
  "zeros b c t = \<lparr>size0 = b, size1 = c, size2 = t, storage = zero_values (b * c * t)\<rparr>"

definition conv1d_accepts :: "'a tensor \<Rightarrow> 'a tensor \<Rightarrow> int \<Rightarrow> int \<Rightarrow> int \<Rightarrow> int \<Rightarrow> bool" where
  "conv1d_accepts x w s p d g =
     (0 < s \<and> 0 \<le> p \<and> 0 < d \<and> 0 < g \<and> 0 < size2 w
      \<and> int (size1 x) = g * int (size1 w) \<and> int (size0 w) mod g = 0
      \<and> d * (int (size2 w) - 1) + 1 \<le> int (size2 x) + 2 * p)"

definition conv1d_out_size :: "'a tensor \<Rightarrow> 'a tensor \<Rightarrow> int \<Rightarrow> int \<Rightarrow> int \<Rightarrow> nat" where
  "conv1d_out_size x w s p d =
     nat ((int (size2 x) + 2 * p - d * (int (size2 w) - 1) - 1) div s + 1)"

definition same_shape :: "'a tensor \<Rightarrow> 'a tensor \<Rightarrow> bool" where
  "same_shape x y = (size0 x = size0 y \<and> size1 x = size1 y \<and> size2 x = size2 y)"

definition shape_framework :: "'a::zero framework" where
  "shape_framework =
     \<lparr>Conv1d_new = (\<lambda>inc outc k s p d g b.
        if g \<le> 0 then Inl (ValueError ''groups must be a positive integer'')
        else if inc mod g \<noteq> 0 then Inl (ValueError ''in_channels must be divisible by groups'')
        else if outc mod g \<noteq> 0
        then Inl (ValueError ''out_channels must be divisible by groups'')
        else if inc < 0 \<or> outc < 0 \<or> k < 0 then Inl RuntimeError
        else Inr (zero_values (nat outc * nat (inc div g) * nat k),
                  if b then Some (zero_values (nat outc)) else None)),
      BatchNorm1d_new = (\<lambda>n e.
        if n < 0 then Inl RuntimeError
        else Inr \<lparr>num_features = n, eps = e, bn_weight = zero_values (nat n),
                  bn_bias = zero_values (nat n)\<rparr>),
      Dropout_new = (\<lambda>p.
        if p < 0 \<or> 1 < p
        then Inl (ValueError ''dropout probability has to be between 0 and 1'')
        else Inr p),
      F_conv1d = (\<lambda>x w b s p d g.
        if conv1d_accepts x w s p d g
        then Inr (zeros (size0 x) (size0 w) (conv1d_out_size x w s p d))
        else Inl RuntimeError),
      batch_norm = (\<lambda>bn x. Inr x),
      relu = (\<lambda>x. x),
      dropout_apply = (\<lambda>p x. x),
      tensor_add = (\<lambda>x y. if same_shape x y then Inr x else Inl RuntimeError),
      stack_sum = (\<lambda>xs. case xs of [] \<Rightarrow> Inl RuntimeError
                    | x # ys \<Rightarrow> if list_all (same_shape x) ys then Inr x else Inl RuntimeError),
      kaiming_uniform = (\<lambda>w. w),
      constant_init = map (\<lambda>v. 0),
      long_overflow = (\<lambda>v. Inl RuntimeError)\<rparr>"

definition demo_conv :: "bool \<Rightarrow> int MaskConv1d" where
  "demo_conv um =
     \<lparr>in_channels = 1, out_channels = 1, kernel_size = 3, stride = 2, padding = 1,
      dilation = 1, groups = 1,
      weight = \<lparr>size0 = 1, size1 = 1, size2 = 3, storage = [1, 1, 1]\<rparr>,
      bias = None, use_mask = um\<rparr>"

definition demo_input :: "int tensor" where
  "demo_input = \<lparr>size0 = 2, size1 = 1, size2 = 4, storage = [1, 2, 3, 4, 5, 6, 7, 8]\<rparr>"

text \<open>
  A convolution of kernel size 1, stride 2 and padding 5, and an input of one sample, one
  channel and one time step, for the largest length a \<open>torch.long\<close> entry can hold.
\<close>

definition wide_conv :: "int MaskConv1d" where
  "wide_conv =
     \<lparr>in_channels = 1, out_channels = 1, kernel_size = 1, stride = 2, padding = 5,
      dilation = 1, groups = 1,
      weight = \<lparr>size0 = 1, size1 = 1, size2 = 1, storage = [1]\<rparr>,
      bias = None, use_mask = True\<rparr>"

definition short_input :: "int tensor" where
  "short_input = \<lparr>size0 = 1, size1 = 1, size2 = 1, storage = [7]\<rparr>"

text \<open>An input for the channel shuffle: one sample, six channels, two time steps.\<close>

definition demo_channels :: "int tensor" where
  "demo_channels = \<lparr>size0 = 1, size1 = 6, size2 = 2,
                     storage = [0, 1, 10, 11, 20, 21, 30, 31, 40, 41, 50, 51]\<rparr>"

text \<open>Small modules and a download that changes nothing, for the examples.\<close>

definition no_download :: "int Jasper \<Rightarrow> string \<Rightarrow> string \<Rightarrow> error + int Jasper" where
  "no_download net name root_dir = Inr net"

definition demo_block :: "int MaskConvBlock1d" where
  "demo_block =
     \<lparr>MaskConvBlock1d.activate = False, use_bn = False, use_dropout = False,
      conv = demo_conv True, bn = None, activ = None, dropout = None\<rparr>"

definition demo_final :: "bool \<Rightarrow> int JasperFinalBlock" where
  "demo_final udr = \<lparr>use_dr = udr, conv1 = Plain demo_block, conv2 = demo_block\<rparr>"

definition demo_jasper :: "int Jasper" where
  "demo_jasper =
     \<lparr>in_size = None, num_classes = 1,
      features = [(''init_block'', InitBlock (Plain demo_block)),
                  (''final_block'', FinalBlock (demo_final False))],
      output_conv = Conv1d.truncate (demo_conv True)\<rparr>"

section \<open>Assumptions on the tensor library\<close>

text \<open>
  What the shape theorem about the whole model assumes of the library: the convolution
  returns a tensor of the documented size on every input it accepts; the layer constructors
  accept positive sizes and dropout rates between 0 and 1; batch normalisation (on a tensor
  with as many channels as it has features), activation, dropout and the addition of two
  tensors of one shape keep the shape.
\<close>

definition conv1d_keeps_shape :: "'a framework \<Rightarrow> bool" where
  "conv1d_keeps_shape fw =
     (\<forall>x w b s p d g. conv1d_accepts x w s p d g \<longrightarrow>
        (\<exists>y. F_conv1d fw x w b s p d g = Inr y \<and> size0 y = size0 x \<and> size1 y = size0 w
              \<and> size2 y = conv1d_out_size x w s p d))"

definition constructors_accept :: "'a framework \<Rightarrow> bool" where
  "constructors_accept fw =
     ((\<forall>inc outc k s p d g b.
          0 < inc \<and> 0 < outc \<and> 0 < k \<and> 0 < s \<and> 0 \<le> p \<and> 0 < d \<and> 0 < g
          \<and> inc mod g = 0 \<and> outc mod g = 0 \<longrightarrow>
          (\<exists>v. Conv1d_new fw inc outc k s p d g b = Inr v))
      \<and> (\<forall>n e. 0 < n \<longrightarrow> (\<exists>m. BatchNorm1d_new fw n e = Inr m \<and> num_features m = n))
      \<and> (\<forall>p. 0 \<le> p \<and> p \<le> 1 \<longrightarrow> (\<exists>v. Dropout_new fw p = Inr v)))"

definition elementwise_keep_shape :: "'a framework \<Rightarrow> bool" where
  "elementwise_keep_shape fw =
     ((\<forall>m x. num_features m = int (size1 x) \<longrightarrow>
          (\<exists>y. batch_norm fw m x = Inr y \<and> same_shape y x))
      \<and> (\<forall>x. same_shape (relu fw x) x)
      \<and> (\<forall>p x. same_shape (dropout_apply fw p x) x)
      \<and> (\<forall>x y. same_shape x y \<longrightarrow> (\<exists>z. tensor_add fw x y = Inr z \<and> same_shape z x)))"

definition library_keeps_shapes :: "'a framework \<Rightarrow> bool" where
  "library_keeps_shapes fw =
     (conv1d_keeps_shape fw \<and> constructors_accept fw \<and> elementwise_keep_shape fw)"

text \<open>The time length after one convolution, as a function of the time length before.\<close>

definition out_time :: "int \<Rightarrow> int \<Rightarrow> int \<Rightarrow> int \<Rightarrow> nat \<Rightarrow> nat" where
  "out_time k s p d T = nat ((int T + 2 * p - d * (k - 1) - 1) div s + 1)"

text \<open>
  What it means for a module to map tensors of \<open>cin\<close> channels to tensors of \<open>cout\<close>
  channels, changing the time length by \<open>tf\<close> and keeping one length per sample. The
  length argument is a length vector wrapped by \<open>wrap\<close> (the identity for blocks, \<open>Len\<close>
  for the members of \<open>features\<close>).
\<close>

definition maps_shape ::
  "(int list \<Rightarrow> 'l) \<Rightarrow> ('a tensor \<Rightarrow> 'l \<Rightarrow> error + ('a tensor \<times> 'l)) \<Rightarrow> nat \<Rightarrow> nat
     \<Rightarrow> (nat \<Rightarrow> nat) \<Rightarrow> bool" where
  "maps_shape wrap f cin cout tf =
     (\<forall>x x_len. size1 x = cin \<and> length x_len = size0 x \<and> 0 < size2 x \<longrightarrow>
        (\<exists>y yl. f x (wrap x_len) = Inr (y, wrap yl) \<and> size0 y = size0 x \<and> size1 y = cout
                 \<and> size2 y = tf (size2 x) \<and> length yl = length x_len))"

text \<open>The conditions on one entry of the unit schedule.\<close>

definition unit_spec_ok :: "int \<times> int \<times> real \<Rightarrow> bool" where
  "unit_spec_ok sp =
     (case sp of (outc, k, dr) \<Rightarrow> 0 < outc \<and> 0 < k \<and> k < 2 ^ 62 \<and> odd k \<and> 0 \<le> dr \<and> dr \<le> 1)"

section \<open>Properties of the masked convolution\<close>

lemma offset_lt:
  assumes "b < B" "c < C" "t < (T::nat)"
  shows "(b * C + c) * T + t < B * C * T"
proof -
  have "(b * C + c) * T + t < (b * C + c) * T + T" using assms by simp
  also have "\<dots> = (b * C + c + 1) * T" by (simp add: algebra_simps)
  also have "\<dots> \<le> (b * C + C) * T" using assms by (intro mult_right_mono) auto
  also have "\<dots> = (b + 1) * (C * T)" by (simp add: algebra_simps)
  also have "\<dots> \<le> B * (C * T)" using assms by (intro mult_right_mono) auto
  finally show ?thesis by (simp add: mult.assoc)
qed

lemma offset_time: "t < (T::nat) \<Longrightarrow> ((b * C + c) * T + t) mod T = t"
  by simp

lemma offset_channel: "c < C \<Longrightarrow> t < (T::nat) \<Longrightarrow> (((b * C + c) * T + t) div T) mod C = c"
  by simp

lemma offset_batch:
  assumes "c < C" "t < (T::nat)"
  shows "((b * C + c) * T + t) div (C * T) = b"
proof -
  have lt: "c * T + t < C * T"
  proof -
    have "c * T + t < c * T + T" using assms by simp
    also have "\<dots> = (c + 1) * T" by simp
    also have "\<dots> \<le> C * T" using assms by (intro mult_right_mono) auto
    finally show ?thesis .
  qed
  have nz: "C * T \<noteq> 0" using assms by auto
  have e: "(b * C + c) * T + t = b * (C * T) + (c * T + t)" by (simp add: algebra_simps)
  have "((b * C + c) * T + t) div (C * T) = b + (c * T + t) div (C * T)"
    unfolding e by (rule div_mult_self3[OF nz])
  then show ?thesis using lt by simp
qed

lemma masked_fill_elem:
  assumes "length msk = size0 x" "b < size0 x" "c < size1 x" "t < size2 x"
  shows "\<exists>y. masked_fill x msk v = Inr y \<and> size0 y = size0 x \<and> size1 y = size1 x \<and> size2 y = size2 x
           \<and> contiguous_ok y
           \<and> elem y b c t = (if msk ! b ! t then v else elem x b c t)"
  using assms offset_lt[of b "size0 x" c "size1 x" t "size2 x"]
  by (auto simp add: masked_fill_def Let_def elem_def contiguous_ok_def numel_def offset_batch)

lemma conv_output_length_div:
  "conv_output_length k s p d l = (l + 2 * p - d * (k - 1) - 1) div s + 1"
  unfolding conv_output_length_def by (simp only: floor_divide_of_int_eq)

lemma wrap64_id: "fits64 v \<Longrightarrow> wrap64 v = v"
  by (simp add: fits64_def wrap64_def)

lemma fits64_div:
  assumes "0 < s" and "fits64 n"
  shows "fits64 (n div s)"
proof (cases "0 \<le> n")
  case True
  have "n div s \<le> n div 1"
    using True assms(1) by (intro zdiv_mono2) simp_all
  moreover have "0 \<le> n div s" using True assms(1) by (simp add: pos_imp_zdiv_nonneg_iff)
  ultimately show ?thesis using assms(2) by (simp add: fits64_def)
next
  case False
  then have "n div s < 0" using assms(1) by (simp add: pos_imp_zdiv_neg_iff)
  moreover have "n div 1 \<le> n div s"
    using False assms(1) by (intro zdiv_mono2_neg) simp_all
  ultimately show ?thesis using assms(2) by (simp add: fits64_def)
qed

lemma MaskConv1d_lengths_exact:
  assumes "0 < stride m" and "lengths_fit_int64 m x_len"
  shows "MaskConv1d_lengths fw m x_len =
           Inr (map (\<lambda>l. (l + 2 * padding m - dilation m * (kernel_size m - 1) - 1)
                            div stride m + 1) x_len)"
proof -
  have sc: "scalar64 fw (2 * padding m) = Inr (2 * padding m)"
    "scalar64 fw (dilation m * (kernel_size m - 1)) = Inr (dilation m * (kernel_size m - 1))"
    "scalar64 fw (stride m) = Inr (stride m)"
    using assms(2) by (simp_all add: lengths_fit_int64_def scalar64_def)
  have el: "wrap64 (wrap64 (wrap64 (wrap64 (wrap64 (l + 2 * padding m)
                 - dilation m * (kernel_size m - 1)) - 1) div stride m) + 1)
            = (l + 2 * padding m - dilation m * (kernel_size m - 1) - 1) div stride m + 1"
    if "l \<in> set x_len" for l
  proof -
    from assms(2) that have f:
      "fits64 (l + 2 * padding m)"
      "fits64 (l + 2 * padding m - dilation m * (kernel_size m - 1))"
      "fits64 (l + 2 * padding m - dilation m * (kernel_size m - 1) - 1)"
      "fits64 ((l + 2 * padding m - dilation m * (kernel_size m - 1) - 1) div stride m + 1)"
      unfolding lengths_fit_int64_def by blast+
    show ?thesis
      by (simp only: wrap64_id f fits64_div[OF assms(1) f(3)])
  qed
  show ?thesis using assms(1) el
    by (simp add: MaskConv1d_lengths_def sc Let_def bindE_def comp_def)
qed

lemma MaskConv1d_lengths_total:
  assumes "fits64 (2 * padding m)" "fits64 (dilation m * (kernel_size m - 1))"
    "fits64 (stride m)" "stride m \<noteq> 0"
  shows "\<exists>yl. MaskConv1d_lengths fw m x_len = Inr yl \<and> length yl = length x_len"
  using assms by (simp add: MaskConv1d_lengths_def Let_def bindE_def scalar64_def)

text \<open>
  The length 9223372036854775807 is the largest entry of a \<open>torch.long\<close> tensor. With
  padding 5, kernel size 1 and stride 2 the sum \<open>len + 2 * padding\<close> wraps around and the
  forward pass returns the length -4611686018427387899, where the formula gives
  4611686018427387909.
\<close>

theorem MaskConv1d_length_formula_overflow:
  "MaskConv1d_forward shape_framework wide_conv short_input [9223372036854775807]
     = Inr (zeros 1 1 6, [- 4611686018427387899])
   \<and> map (conv_output_length 1 2 5 1) [9223372036854775807] = [4611686018427387909]"
  by (simp add: MaskConv1d_forward_def MaskConv1d_mask_def MaskConv1d_lengths_def scalar64_def
        fits64_def wrap64_def wide_conv_def short_input_def shape_framework_def masked_fill_def
        length_mask_def bindE_def conv1d_accepts_def conv1d_out_size_def conv_output_length_div
        Let_def elem_def zeros_def zero_values_def)

text \<open>
  Claim C1. With masking enabled, a positive stride, and no value of the length update
  outside the range of a signed 64-bit integer, \<open>MaskConv1d.forward\<close> masks the input,
  convolves it, and returns with the result the length vector obtained by applying
  \<open>floor((len + 2*padding - dilation*(kernel-1) - 1) / stride) + 1\<close> to every entry of the
  input length vector.
\<close>

theorem MaskConv1d_length_formula:
  assumes "use_mask m" and "0 < stride m" and "lengths_fit_int64 m x_len"
  shows "MaskConv1d_forward fw m x x_len =
           bindE (masked_fill x (length_mask (size2 x) x_len) 0) (\<lambda>xm.
             bindE (F_conv1d fw xm (weight m) (bias m) (stride m) (padding m) (dilation m) (Conv1d.groups m))
               (\<lambda>y. Inr (y, map (conv_output_length (kernel_size m) (stride m) (padding m)
                                   (dilation m)) x_len)))"
  using assms(1)
  by (simp add: MaskConv1d_forward_def MaskConv1d_mask_def Let_def bindE_def
        MaskConv1d_lengths_exact[OF assms(2,3)] conv_output_length_div split: sum.splits)

theorem MaskConv1d_length_formula_witness:
  "MaskConv1d_forward shape_framework (demo_conv True) demo_input [4, 1]
     = Inr (zeros 2 1 2, [2, 1])"
  using MaskConv1d_length_formula [of "demo_conv True" "[4, 1]" shape_framework demo_input]
  by (simp add: demo_conv_def demo_input_def shape_framework_def masked_fill_def length_mask_def
        bindE_def conv1d_accepts_def conv1d_out_size_def conv_output_length_def Let_def
        lengths_fit_int64_def fits64_def)

lemma length_mask_nth:
  "b < length x_len \<Longrightarrow> t < n \<Longrightarrow> length_mask n x_len ! b ! t = (x_len ! b \<le> int t)"
  by (simp add: length_mask_def)

text \<open>
  Claim C2. With masking enabled and one length per sample, the tensor handed to the
  convolution has the shape of the input, is zero at every time position at or beyond the
  sample's length, in every channel, and agrees with the input at every earlier position.
\<close>

theorem MaskConv1d_masks_before_conv:
  assumes "use_mask m" and "length x_len = size0 x"
  shows "\<exists>xm. masked_fill x (length_mask (size2 x) x_len) 0 = Inr xm
           \<and> size0 xm = size0 x \<and> size1 xm = size1 x \<and> size2 xm = size2 x
           \<and> (\<forall>b<size0 x. \<forall>c<size1 x. \<forall>t<size2 x.
                 elem xm b c t = (if x_len ! b \<le> int t then 0 else elem x b c t))
           \<and> MaskConv1d_forward fw m x x_len =
                bindE (MaskConv1d_lengths fw m x_len) (\<lambda>yl.
                  bindE (F_conv1d fw xm (weight m) (bias m) (stride m) (padding m)
                           (dilation m) (Conv1d.groups m))
                    (\<lambda>y. Inr (y, yl)))"
proof -
  let ?msk = "length_mask (size2 x) x_len"
  have len: "length ?msk = size0 x" using assms(2) by (simp add: length_mask_def)
  then obtain xm where xm: "masked_fill x ?msk 0 = Inr xm"
    by (auto simp add: masked_fill_def Let_def)
  have shape: "size0 xm = size0 x" "size1 xm = size1 x" "size2 xm = size2 x"
    using xm len by (auto simp add: masked_fill_def Let_def split: if_splits)
  have pt: "elem xm b c t = (if x_len ! b \<le> int t then 0 else elem x b c t)"
    if "b < size0 x" "c < size1 x" "t < size2 x" for b c t
    using masked_fill_elem[OF len that, of 0] xm length_mask_nth[of b x_len t "size2 x"] that assms(2)
    by auto
  have fwd: "MaskConv1d_forward fw m x x_len =
                bindE (MaskConv1d_lengths fw m x_len) (\<lambda>yl.
                  bindE (F_conv1d fw xm (weight m) (bias m) (stride m) (padding m)
                           (dilation m) (Conv1d.groups m))
                    (\<lambda>y. Inr (y, yl)))"
    using assms(1) xm
    by (simp add: MaskConv1d_forward_def MaskConv1d_mask_def Let_def bindE_def split: sum.splits)
  show ?thesis using xm shape pt fwd by blast
qed

theorem MaskConv1d_masks_before_conv_witness:
  "\<exists>xm. masked_fill demo_input (length_mask 4 [3, 1]) 0 = Inr xm
     \<and> map (\<lambda>t. elem xm 0 0 t) [0, 1, 2, 3] = [1, 2, 3, 0]
     \<and> map (\<lambda>t. elem xm 1 0 t) [0, 1, 2, 3] = [5, 0, 0, 0]"
proof -
  have um: "use_mask (demo_conv True)" by (simp add: demo_conv_def)
  have len: "length [3, 1 :: int] = size0 demo_input" by (simp add: demo_input_def)
  from MaskConv1d_masks_before_conv [OF um len, of shape_framework]
  obtain xm where xm: "masked_fill demo_input (length_mask 4 [3, 1]) 0 = Inr xm"
    and pt: "\<forall>b<2. \<forall>c<1. \<forall>t<4.
               elem xm b c t = (if [3, 1] ! b \<le> int t then 0 else elem demo_input b c t)"
    by (auto simp add: demo_input_def)
  have r0: "map (\<lambda>t. elem xm 0 0 t) [0, 1, 2, 3] = [1, 2, 3, 0]"
    and r1: "map (\<lambda>t. elem xm 1 0 t) [0, 1, 2, 3] = [5, 0, 0, 0]"
    using pt by (simp_all add: eval_nat_numeral All_less_Suc elem_def demo_input_def)
  show ?thesis by (rule exI[of _ xm]) (simp only: xm r0 r1)
qed

text \<open>
  Claim C10. With \<open>use_mask = False\<close> the input tensor goes to the convolution as it is
  and the length vector is returned unchanged, whatever the stride, padding, dilation and
  kernel size are. In the example the time dimension shrinks from 4 to 2 and the lengths
  stay \<open>[4, 1]\<close>.
\<close>

theorem MaskConv1d_unmasked_length_unchanged:
  assumes "\<not> use_mask m"
  shows "MaskConv1d_forward fw m x x_len =
           bindE (F_conv1d fw x (weight m) (bias m) (stride m) (padding m) (dilation m) (Conv1d.groups m))
             (\<lambda>y. Inr (y, x_len))"
  using assms by (simp add: MaskConv1d_forward_def bindE_def)

theorem MaskConv1d_unmasked_length_unchanged_witness:
  "MaskConv1d_forward shape_framework (demo_conv False) demo_input [4, 1]
     = Inr (zeros 2 1 2, [4, 1])"
  using MaskConv1d_unmasked_length_unchanged
          [of "demo_conv False" shape_framework demo_input "[4, 1]"]
  by (simp add: demo_conv_def demo_input_def shape_framework_def bindE_def conv1d_accepts_def
        conv1d_out_size_def)

section \<open>Error plumbing\<close>

lemma bindE_Inr [simp]: "bindE (Inr v) f = f v"
  by (simp add: bindE_def)

lemma bindE_Inl [simp]: "bindE (Inl e) f = Inl e"
  by (simp add: bindE_def)

lemma bindE_eq_Inr: "bindE r f = Inr y \<longleftrightarrow> (\<exists>v. r = Inr v \<and> f v = Inr y)"
  by (cases r) simp_all

























section \<open>Properties of the channel shuffle\<close>

lemma row_lt: "m < M \<Longrightarrow> t < (T::nat) \<Longrightarrow> m * T + t < M * T"
proof -
  assume a: "m < M" "t < T"
  have "m * T + t < m * T + T" using a by simp
  also have "\<dots> = (m + 1) * T" by simp
  also have "\<dots> \<le> M * T" using a by (intro mult_right_mono) auto
  finally show ?thesis .
qed

lemma transpose12_source_offset:
  assumes "g < d1" "k < d2" "t < d3"
  shows "transpose12_source d1 d2 d3 (((b * d2 + k) * d1 + g) * d3 + t)
           = ((b * d1 + g) * d2 + k) * d3 + t"
  using assms by (simp add: transpose12_source_def Let_def)

lemma offset_decompose:
  "n = ((n div d3 div d1 div d2 * d2 + n div d3 div d1 mod d2) * d1 + n div d3 mod d1) * d3
         + n mod (d3::nat)"
  by simp

lemma transpose12_source_involution:
  assumes "0 < d1" "0 < d2" "0 < d3"
  shows "transpose12_source d2 d1 d3 (transpose12_source d1 d2 d3 n) = n"
proof -
  let ?t = "n mod d3" and ?g = "n div d3 mod d1" and ?k = "n div d3 div d1 mod d2"
    and ?b = "n div d3 div d1 div d2"
  have g: "?g < d1" and k: "?k < d2" and t: "?t < d3" using assms by simp_all
  have "transpose12_source d1 d2 d3 n = ((?b * d1 + ?g) * d2 + ?k) * d3 + ?t"
    by (simp add: transpose12_source_def Let_def)
  then have "transpose12_source d2 d1 d3 (transpose12_source d1 d2 d3 n)
               = ((?b * d2 + ?k) * d1 + ?g) * d3 + ?t"
    using transpose12_source_offset[OF k g t, of ?b] by simp
  also have "\<dots> = n" by simp
  finally show ?thesis .
qed

lemma transpose12_source_lt:
  assumes "n < B * d2 * d1 * d3"
  shows "transpose12_source d1 d2 d3 n < B * d1 * d2 * d3"
proof -
  have pos: "0 < d1" "0 < d2" "0 < d3" using assms by (auto intro: Nat.gr0I)
  have b: "n div d3 div d1 div d2 < B"
    using assms by (simp add: less_mult_imp_div_less mult.assoc mult.commute mult.left_commute)
  have g: "n div d3 mod d1 < d1" and k: "n div d3 div d1 mod d2 < d2" and t: "n mod d3 < d3"
    using pos by simp_all
  have s1: "(n div d3 div d1 div d2 * d1 + n div d3 mod d1) * d2 + n div d3 div d1 mod d2
          < B * d1 * d2"
    by (intro row_lt b g k)
  have "((n div d3 div d1 div d2 * d1 + n div d3 mod d1) * d2 + n div d3 div d1 mod d2) * d3
               + n mod d3 < B * d1 * d2 * d3"
    by (rule row_lt[OF s1 t])
  then show ?thesis by (simp add: transpose12_source_def Let_def)
qed

lemma view_sizes4:
  "view_sizes (int_n) [int a, int b, int c, int d] =
     (if a * b * c * d = int_n then Inr [a, b, c, d] else Inl RuntimeError)"
proof -
  have "int a * int b * int c * int d = int (a * b * c * d)" by simp
  then have "(int a * (int b * (int c * int d)) = int int_n) = (a * b * c * d = int_n)"
    by (metis (no_types, lifting) mult.assoc of_nat_eq_iff)
  then show ?thesis by (simp add: view_sizes_def)
qed

lemma view_sizes3:
  "view_sizes (int_n) [int a, int b, int c] =
     (if a * b * c = int_n then Inr [a, b, c] else Inl RuntimeError)"
proof -
  have "int a * int b * int c = int (a * b * c)" by simp
  then have "(int a * (int b * int c) = int int_n) = (a * b * c = int_n)"
    by (metis (no_types, lifting) mult.assoc of_nat_eq_iff)
  then show ?thesis by (simp add: view_sizes_def)
qed

lemma view_sizes3_prod:
  "view_sizes n [int a, int b * int c, int d] =
     (if a * (b * c) * d = n then Inr [a, b * c, d] else Inl RuntimeError)"
  using view_sizes3[of n a "b * c" d] by simp

text \<open>The shuffle of a tensor with \<open>G * K\<close> channels into \<open>G\<close> groups, in closed form.\<close>

lemma ChannelShuffle1d_forward_eq:
  assumes "0 < G" and "size1 x = G * K"
  shows "ChannelShuffle1d_forward \<lparr>groups = int G\<rparr> x =
           Inr \<lparr>size0 = size0 x, size1 = G * K, size2 = size2 x,
                storage = map (\<lambda>n. storage x ! transpose12_source G K (size2 x) n)
                            [0..<size0 x * K * G * size2 x]\<rparr>"
proof -
  have cpg: "int (size1 x) div int G = int K" using assms
    by (simp add: zdiv_int[symmetric])
  have n1: "size0 x * G * K * size2 x = numel x" using assms by (simp add: numel_def)
  have n2: "size0 x * (G * K) * size2 x = size0 x * K * G * size2 x" by simp
  show ?thesis
    using assms(1)
    by (simp add: ChannelShuffle1d_forward_def Let_def cpg view4_def view_sizes4 n1 view3_def
          transpose12_contiguous_def view_sizes3_prod assms(2) n2)
qed

lemma shuffle_index_lt:
  assumes "ch < G * K"
  shows "shuffle_index G K ch < G * K"
proof -
  have G: "0 < G" using assms by (auto intro: Nat.gr0I)
  have "ch div G < K" using assms by (simp add: less_mult_imp_div_less mult.commute)
  moreover have "ch mod G < G" using G by simp
  ultimately show ?thesis unfolding shuffle_index_def by (intro row_lt)
qed

lemma shuffle_index_inverse:
  assumes "ch < G * K"
  shows "shuffle_index K G (shuffle_index G K ch) = ch"
proof -
  have k: "ch div G < K" using assms by (simp add: less_mult_imp_div_less mult.commute)
  show ?thesis using k by (simp add: shuffle_index_def)
qed

lemma shuffle_index_bij: "bij_betw (shuffle_index G K) {..<G * K} {..<G * K}"
proof (rule bij_betw_byWitness[where f' = "shuffle_index K G"])
  show "\<forall>a\<in>{..<G * K}. shuffle_index K G (shuffle_index G K a) = a"
    by (simp add: shuffle_index_inverse)
  show "\<forall>a'\<in>{..<G * K}. shuffle_index G K (shuffle_index K G a') = a'"
    using shuffle_index_inverse[of _ K G] by (simp add: mult.commute)
  show "shuffle_index G K ` {..<G * K} \<subseteq> {..<G * K}"
    using shuffle_index_lt by auto
  show "shuffle_index K G ` {..<G * K} \<subseteq> {..<G * K}"
    using shuffle_index_lt[of _ K G] by (auto simp add: mult.commute)
qed

lemma shuffled_elem:
  assumes "0 < G" and "size1 x = G * K" and "b < size0 x" and "ch < G * K" and "t < size2 x"
    and y: "ChannelShuffle1d_forward \<lparr>groups = int G\<rparr> x = Inr y"
  shows "elem y b ch t = elem x b (shuffle_index G K ch) t"
proof -
  let ?T = "size2 x"
  have yeq: "y = \<lparr>size0 = size0 x, size1 = G * K, size2 = ?T,
                  storage = map (\<lambda>n. storage x ! transpose12_source G K ?T n)
                              [0..<size0 x * K * G * ?T]\<rparr>"
    using ChannelShuffle1d_forward_eq[OF assms(1,2)] y by simp
  have k: "ch div G < K" using assms(4) by (simp add: less_mult_imp_div_less mult.commute)
  have g: "ch mod G < G" using assms(1) by simp
  have idx: "(b * (G * K) + ch) * ?T + t = ((b * K + ch div G) * G + ch mod G) * ?T + t"
    by (simp add: algebra_simps)
  have lt: "(b * (G * K) + ch) * ?T + t < size0 x * K * G * ?T"
    using offset_lt[OF assms(3,4,5)] by (simp add: mult.assoc mult.commute mult.left_commute)
  have "elem y b ch t = storage x ! transpose12_source G K ?T ((b * (G * K) + ch) * ?T + t)"
    using lt by (simp add: yeq elem_def)
  also have "\<dots> = storage x ! (((b * G + ch mod G) * K + ch div G) * ?T + t)"
    unfolding idx using transpose12_source_offset[OF g k assms(5)] by simp
  also have "\<dots> = elem x b (shuffle_index G K ch) t"
    by (simp add: elem_def assms(2) shuffle_index_def algebra_simps)
  finally show ?thesis .
qed

lemma ChannelShuffle1d_forward_inverse:
  assumes "0 < G" and "0 < K" and "size1 x = G * K" and "contiguous_ok x"
    and y: "ChannelShuffle1d_forward \<lparr>groups = int G\<rparr> x = Inr y"
  shows "ChannelShuffle1d_forward \<lparr>groups = int K\<rparr> y = Inr x"
proof -
  let ?T = "size2 x" and ?B = "size0 x"
  have yeq: "y = \<lparr>size0 = ?B, size1 = G * K, size2 = ?T,
                  storage = map (\<lambda>n. storage x ! transpose12_source G K ?T n)
                              [0..<?B * K * G * ?T]\<rparr>"
    using ChannelShuffle1d_forward_eq[OF assms(1,3)] y by simp
  have y1: "size1 y = K * G" by (simp add: yeq)
  have len: "length (storage x) = ?B * G * K * ?T"
    using assms(3,4) by (simp add: contiguous_ok_def numel_def)
  have pt: "storage y ! transpose12_source K G ?T n = storage x ! n" if n: "n < ?B * G * K * ?T" for n
  proof -
    have T: "0 < ?T" using n by (auto intro: Nat.gr0I)
    have "transpose12_source K G ?T n < ?B * K * G * ?T"
      by (rule transpose12_source_lt[OF n])
    then have "storage y ! transpose12_source K G ?T n
                 = storage x ! transpose12_source G K ?T (transpose12_source K G ?T n)"
      by (simp add: yeq)
    then show ?thesis using transpose12_source_involution[OF assms(2,1) T] by simp
  qed
  have "map (\<lambda>n. storage y ! transpose12_source K G ?T n) [0..<?B * G * K * ?T]
          = map (\<lambda>n. storage x ! n) [0..<?B * G * K * ?T]"
    using pt by simp
  also have "\<dots> = storage x" using len map_nth[of "storage x"] by simp
  finally have st: "map (\<lambda>n. storage y ! transpose12_source K G ?T n) [0..<?B * G * K * ?T]
                      = storage x" .
  have "ChannelShuffle1d_forward \<lparr>groups = int K\<rparr> y =
          Inr \<lparr>size0 = size0 y, size1 = K * G, size2 = size2 y,
               storage = map (\<lambda>n. storage y ! transpose12_source K G (size2 y) n)
                           [0..<size0 y * G * K * size2 y]\<rparr>"
    by (rule ChannelShuffle1d_forward_eq[OF assms(2) y1])
  also have "\<dots> = Inr x"
    using st assms(3) by (simp add: yeq mult.commute)
  finally show ?thesis .
qed

text \<open>
  Claim C4. For a positive channel count \<open>c\<close> and a positive group count \<open>g\<close> dividing it,
  both shuffles can be constructed; the shuffle for \<open>(c, g)\<close> keeps the shape and shows at
  channel \<open>ch\<close> the input channel \<open>shuffle_index g (c div g) ch\<close>, at the same batch index
  and time position; that map is a bijection on the channel indices; and the shuffle for
  \<open>(c, c // g)\<close> applied to the result gives the input tensor back.
\<close>

theorem ChannelShuffle1d_is_permutation:
  assumes "0 < g" and "0 < c" and "g dvd c" and "size1 x = c" and "contiguous_ok x"
  shows "\<exists>y. ChannelShuffle1d_init (int c) (int g) = Inr \<lparr>groups = int g\<rparr>
           \<and> ChannelShuffle1d_init (int c) (int c div int g) = Inr \<lparr>groups = int c div int g\<rparr>
           \<and> ChannelShuffle1d_forward \<lparr>groups = int g\<rparr> x = Inr y
           \<and> size0 y = size0 x \<and> size1 y = c \<and> size2 y = size2 x
           \<and> (\<forall>b<size0 x. \<forall>ch<c. \<forall>t<size2 x.
                 elem y b ch t = elem x b (shuffle_index g (c div g) ch) t)
           \<and> bij_betw (shuffle_index g (c div g)) {..<c} {..<c}
           \<and> (\<forall>ch<c. shuffle_index g (c div g) (shuffle_index (c div g) g ch) = ch)
           \<and> ChannelShuffle1d_forward \<lparr>groups = int c div int g\<rparr> y = Inr x"
proof -
  let ?K = "c div g"
  have c: "c = g * ?K" using assms(3) by simp
  have K: "0 < ?K" using assms(1,2,3) by (metis c mult_0_right not_gr_zero)
  have Kint: "int c div int g = int ?K" by (simp add: zdiv_int)
  have x1: "size1 x = g * ?K" using assms(4) c by simp
  obtain y where y: "ChannelShuffle1d_forward \<lparr>groups = int g\<rparr> x = Inr y"
    using ChannelShuffle1d_forward_eq[OF assms(1) x1] by blast
  have shape: "size0 y = size0 x" "size1 y = c" "size2 y = size2 x"
    using ChannelShuffle1d_forward_eq[OF assms(1) x1] y c by auto
  have i1: "ChannelShuffle1d_init (int c) (int g) = Inr \<lparr>groups = int g\<rparr>"
    using assms(1,3) by (simp add: ChannelShuffle1d_init_def mod_eq_0_iff_dvd)
  have "int ?K dvd int c" using c by (metis dvd_triv_right of_nat_dvd_iff)
  then have i2: "ChannelShuffle1d_init (int c) (int c div int g) = Inr \<lparr>groups = int c div int g\<rparr>"
    using K by (simp add: ChannelShuffle1d_init_def Kint mod_eq_0_iff_dvd)
  have el: "\<forall>b<size0 x. \<forall>ch<c. \<forall>t<size2 x.
              elem y b ch t = elem x b (shuffle_index g ?K ch) t"
    using shuffled_elem[OF assms(1) x1 _ _ _ y] c by metis
  have bij: "bij_betw (shuffle_index g ?K) {..<c} {..<c}"
    using shuffle_index_bij[of g ?K] c by simp
  have inv: "\<forall>ch<c. shuffle_index g ?K (shuffle_index ?K g ch) = ch"
    using shuffle_index_inverse[of _ ?K g] c by (simp add: mult.commute)
  have roundtrip: "ChannelShuffle1d_forward \<lparr>groups = int c div int g\<rparr> y = Inr x"
    unfolding Kint by (rule ChannelShuffle1d_forward_inverse[OF assms(1) K x1 assms(5) y])
  show ?thesis using i1 i2 y shape el bij inv roundtrip by blast
qed

theorem ChannelShuffle1d_is_permutation_witness:
  "ChannelShuffle1d_forward \<lparr>groups = 2\<rparr> demo_channels =
     Inr \<lparr>size0 = 1, size1 = 6, size2 = 2,
          storage = [0, 1, 30, 31, 10, 11, 40, 41, 20, 21, 50, 51]\<rparr>
   \<and> ChannelShuffle1d_forward \<lparr>groups = 3\<rparr>
         \<lparr>size0 = 1, size1 = 6, size2 = 2,
          storage = [0, 1, 30, 31, 10, 11, 40, 41, 20, 21, 50, 51]\<rparr> = Inr demo_channels"
proof -
  have h: "(0::nat) < 2" "(0::nat) < 6" "(2::nat) dvd 6" "size1 demo_channels = 6"
    "contiguous_ok demo_channels"
    by (simp_all add: demo_channels_def contiguous_ok_def numel_def)
  from ChannelShuffle1d_is_permutation[OF h]
  obtain y where y: "ChannelShuffle1d_forward \<lparr>groups = 2\<rparr> demo_channels = Inr y"
    and r: "ChannelShuffle1d_forward \<lparr>groups = 3\<rparr> y = Inr demo_channels"
    by auto
  have "ChannelShuffle1d_forward \<lparr>groups = 2\<rparr> demo_channels =
     Inr \<lparr>size0 = 1, size1 = 6, size2 = 2,
          storage = [0, 1, 30, 31, 10, 11, 40, 41, 20, 21, 50, 51]\<rparr>"
    by code_simp
  with y r show ?thesis by simp
qed



section \<open>Properties of the factory\<close>

lemma split_x_no_x: "CHR ''x'' \<notin> set r \<Longrightarrow> split_x r = [r]"
  by (induction r) auto

lemma split_x_append:
  "CHR ''x'' \<notin> set b \<Longrightarrow> split_x (b @ CHR ''x'' # r) = b # split_x r"
  by (induction b) auto

lemma parse_version_pair:
  assumes "py_int b = Inr B" and "py_int r = Inr R"
    and "CHR ''x'' \<notin> set b" and "CHR ''x'' \<notin> set r"
  shows "parse_version (b @ ''x'' @ r) = Inr (B, R)"
  using assms by (simp add: parse_version_def split_x_append split_x_no_x)

lemma stage_repeat_eq: "fits64 m \<Longrightarrow> stage_repeat m = Inr [1, m, m, m, m, m, 1, 1]"
  by (simp add: stage_repeat_def slice_1_m2_def eval_nat_numeral wrap64_id)

lemma expand_channels:
  "expand_table channels_per_stage [1, m, m, m, m, m, 1, 1]
     = expand_stages_spec (nat m) channels_per_stage"
  by (simp add: expand_table_def expand_stages_spec_def channels_per_stage_def)

lemma expand_kernel_sizes:
  "expand_table kernel_sizes_per_stage [1, m, m, m, m, m, 1, 1]
     = expand_stages_spec (nat m) kernel_sizes_per_stage"
  by (simp add: expand_table_def expand_stages_spec_def kernel_sizes_per_stage_def)

lemma expand_dropout_rates:
  "expand_table dropout_rates_per_stage [1, m, m, m, m, m, 1, 1]
     = expand_stages_spec (nat m) dropout_rates_per_stage"
  by (simp add: expand_table_def expand_stages_spec_def dropout_rates_per_stage_def)

lemma get_jasper_args_of_pair:
  assumes "parse_version version = Inr (B, R)" and "fits64 (B div 5)"
  shows "get_jasper_args version =
           Inr \<lparr>arg_channels = expand_stages_spec (nat (B div 5)) channels_per_stage,
                arg_kernel_sizes = expand_stages_spec (nat (B div 5)) kernel_sizes_per_stage,
                arg_dropout_rates = expand_stages_spec (nat (B div 5)) dropout_rates_per_stage,
                arg_repeat = R, arg_use_dw = False, arg_use_dr = False\<rparr>"
  using assms
  by (simp add: get_jasper_args_def Let_def stage_repeat_eq expand_channels expand_kernel_sizes
        expand_dropout_rates)

lemma py_int_5: "py_int ''5'' = Inr 5" and py_int_3: "py_int ''3'' = Inr 3"
  and py_int_10: "py_int ''10'' = Inr 10" and py_int_4: "py_int ''4'' = Inr 4"
  by (simp_all add: py_int_def strip_def is_space_def is_digit_def digit_value_def)

lemma parse_named:
  "parse_version ''5x3'' = Inr (5, 3)"
  "parse_version ''10x4'' = Inr (10, 4)"
  "parse_version ''10x5'' = Inr (10, 5)"
  using parse_version_pair[OF py_int_5 py_int_3] parse_version_pair[OF py_int_10 py_int_4]
    parse_version_pair[OF py_int_10 py_int_5]
  by simp_all

lemma fits64_named: "fits64 (5 div 5)" "fits64 (10 div 5)"
  by (simp_all add: fits64_def)

lemma named_args:
  "\<forall>v \<in> {''5x3'', ''10x4'', ''10x5''}.
     \<exists>a. get_jasper_args v = Inr a \<and> \<not> arg_use_dw a \<and> \<not> arg_use_dr a"
  using get_jasper_args_of_pair[OF parse_named(1) fits64_named(1)]
    get_jasper_args_of_pair[OF parse_named(2) fits64_named(2)]
    get_jasper_args_of_pair[OF parse_named(3) fits64_named(2)]
  by simp

text \<open>
  The version string \<open>-50000000000000000000x3\<close> is read as the pair
  \<open>(-50000000000000000000, 3)\<close>; \<open>main_stage_repeat\<close> is \<open>-10000000000000000000\<close>, which
  the integer array refuses, so that no list is expanded.
\<close>

theorem get_jasper_args_overflow:
  "get_jasper_args ''-50000000000000000000x3'' = Inl OverflowError"
proof -
  have b: "py_int ''-50000000000000000000'' = Inr (- 50000000000000000000)"
    by (simp add: py_int_def strip_def is_space_def is_digit_def digit_value_def)
  have x: "CHR ''x'' \<notin> set ''-50000000000000000000''" "CHR ''x'' \<notin> set ''3''"
    by simp_all
  have "parse_version ''-50000000000000000000x3'' = Inr (- 50000000000000000000, 3)"
    using parse_version_pair[OF b py_int_3 x] by simp
  then show ?thesis
    by (simp add: get_jasper_args_def stage_repeat_def fits64_def Let_def)
qed

text \<open>
  Claim C5. For a version string made of two pieces that \<open>int\<close> reads as \<open>B\<close> and \<open>R\<close>,
  separated by the letter x, with \<open>B // 5\<close> in the range of a signed 64-bit integer,
  \<open>get_jasper\<close> computes the channel, kernel-size and dropout lists by keeping the first
  and the last two entries of the eight-entry tables once and repeating each of the five
  middle entries \<open>B // 5\<close> times; it passes \<open>R\<close> as the repeat count and sets both mode
  flags to \<open>False\<close>, in particular for the versions 5x3, 10x4 and 10x5.
\<close>

theorem get_jasper_args_expansion:
  assumes "py_int b = Inr B" and "py_int r = Inr R"
    and "CHR ''x'' \<notin> set b" and "CHR ''x'' \<notin> set r"
    and "fits64 (B div 5)"
  shows "get_jasper_args (b @ ''x'' @ r) =
           Inr \<lparr>arg_channels = expand_stages_spec (nat (B div 5)) channels_per_stage,
                arg_kernel_sizes = expand_stages_spec (nat (B div 5)) kernel_sizes_per_stage,
                arg_dropout_rates = expand_stages_spec (nat (B div 5)) dropout_rates_per_stage,
                arg_repeat = R, arg_use_dw = False, arg_use_dr = False\<rparr>
       \<and> (\<forall>v \<in> {''5x3'', ''10x4'', ''10x5''}.
             \<exists>a. get_jasper_args v = Inr a \<and> \<not> arg_use_dw a \<and> \<not> arg_use_dr a)"
  using get_jasper_args_of_pair[OF parse_version_pair[OF assms(1-4)] assms(5)] named_args
  by blast

theorem get_jasper_args_expansion_witness:
  "get_jasper_args ''10x4'' =
     Inr \<lparr>arg_channels = [256, 256, 256, 384, 384, 512, 512, 640, 640, 768, 768, 896, 1024],
          arg_kernel_sizes = [11, 11, 11, 13, 13, 17, 17, 21, 21, 25, 25, 29, 1],
          arg_dropout_rates = [0.2, 0.2, 0.2, 0.2, 0.2, 0.2, 0.2, 0.3, 0.3, 0.3, 0.3, 0.4, 0.4],
          arg_repeat = 4, arg_use_dw = False, arg_use_dr = False\<rparr>"
proof -
  have x: "CHR ''x'' \<notin> set ''10''" "CHR ''x'' \<notin> set ''4''" by simp_all
  show ?thesis
    using get_jasper_args_expansion [OF py_int_10 py_int_4 x fits64_named(2)]
    by (simp add: expand_stages_spec_def channels_per_stage_def kernel_sizes_per_stage_def
          dropout_rates_per_stage_def eval_nat_numeral)
qed

section \<open>Properties of the final block and of the pretrained check\<close>

text \<open>
  Claim C7. In dense-residual mode the final block runs its two convolution blocks on the
  first component of the accumulated tuple, whatever the two accumulated lists hold; in
  plain mode it runs them on the length vector it is given.
\<close>

theorem JasperFinalBlock_forward_length:
  "(JasperFinalBlock.use_dr self \<longrightarrow>
      JasperFinalBlock_forward fw self x (Acc l ys ls) = JasperFinalBlock_convs fw self x l)
   \<and> (\<not> JasperFinalBlock.use_dr self \<longrightarrow>
      JasperFinalBlock_forward fw self x (Len l) = JasperFinalBlock_convs fw self x l)
   \<and> JasperFinalBlock_convs fw self x l =
        bindE (block_forward fw (conv1 self) x l) (\<lambda>(x1, l1).
        bindE (MaskConvBlock1d_forward fw (conv2 self) x1 l1) (\<lambda>(x2, l2). Inr (x2, Len l2)))"
  by (simp add: JasperFinalBlock_forward_def JasperFinalBlock_convs_def bindE_def)

lemma demo_final_convs:
  "JasperFinalBlock_convs shape_framework (demo_final udr) demo_input [4, 1]
     = Inr (zeros 2 1 1, Len [1, 1])"
  by (simp add: JasperFinalBlock_convs_def demo_final_def demo_block_def block_forward_def
        MaskConvBlock1d_forward_def MaskConv1d_forward_def MaskConv1d_mask_def
        MaskConv1d_lengths_def scalar64_def fits64_def wrap64_def bn_activ_dropout_def demo_conv_def demo_input_def shape_framework_def masked_fill_def
        length_mask_def bindE_def conv1d_accepts_def conv1d_out_size_def Let_def zeros_def)

theorem JasperFinalBlock_forward_length_witness:
  "JasperFinalBlock_forward shape_framework (demo_final True) demo_input
     (Acc [4, 1] [demo_input, demo_input] [[7, 7], [9, 9]]) = Inr (zeros 2 1 1, Len [1, 1])
   \<and> JasperFinalBlock_forward shape_framework (demo_final False) demo_input (Len [4, 1])
       = Inr (zeros 2 1 1, Len [1, 1])"
  using JasperFinalBlock_forward_length
          [of "demo_final True" shape_framework demo_input "[4, 1]"
              "[demo_input, demo_input]" "[[7, 7], [9, 9]]"]
        JasperFinalBlock_forward_length
          [of "demo_final False" shape_framework demo_input "[4, 1]"]
  by (simp add: demo_final_convs) (simp add: demo_final_def)


section \<open>Properties of the parameter initialisation\<close>

lemma not_conv2d [simp]:
  "\<not> isinstance C_MaskConv1d C_Conv2d" "\<not> isinstance C_Conv1d C_Conv2d"
  "\<not> isinstance C_BatchNorm1d C_Conv2d"
  by (simp_all add: isinstance_def)

lemma conv_init_params_id:
  "\<not> isinstance cls C_Conv2d \<Longrightarrow> conv_init_params fw cls c = c"
  by (simp add: conv_init_params_def init_params_body_def)

lemma bn_init_params_id: "bn_init_params fw m = m"
  by (simp add: bn_init_params_def init_params_body_def)

lemma map_option_bn_id: "map_option (bn_init_params fw) b = b"
  by (cases b) (simp_all add: bn_init_params_id)

lemma MaskConvBlock1d_init_params_id: "MaskConvBlock1d_init_params fw m = m"
  by (simp add: MaskConvBlock1d_init_params_def conv_init_params_id map_option_bn_id)

lemma DwsConvBlock1d_init_params_id: "DwsConvBlock1d_init_params fw m = m"
  by (simp add: DwsConvBlock1d_init_params_def conv_init_params_id map_option_bn_id)

lemma block_init_params_id: "block_init_params fw blk = blk"
  by (cases blk)
     (simp_all add: block_init_params_def MaskConvBlock1d_init_params_id
        DwsConvBlock1d_init_params_id)

lemma JasperUnit_init_params_id: "JasperUnit_init_params fw u = u"
proof -
  have "(case identity_block u of
            Single m \<Rightarrow> Single (MaskConvBlock1d_init_params fw m)
          | Parallel ms \<Rightarrow> Parallel (map (MaskConvBlock1d_init_params fw) ms)) = identity_block u"
    by (cases "identity_block u") (simp_all add: MaskConvBlock1d_init_params_id map_idI)
  moreover have "map (block_init_params fw) (body u) = body u"
    by (simp add: block_init_params_id map_idI)
  ultimately show ?thesis by (simp add: JasperUnit_init_params_def)
qed

lemma JasperFinalBlock_init_params_id: "JasperFinalBlock_init_params fw m = m"
  by (simp add: JasperFinalBlock_init_params_def block_init_params_id
        MaskConvBlock1d_init_params_id)

lemma feature_init_params_id: "feature_init_params fw f = f"
  by (cases f)
     (simp_all add: feature_init_params_def block_init_params_id JasperUnit_init_params_id
        JasperFinalBlock_init_params_id)

lemma Jasper_init_params_id: "Jasper_init_params fw net = net"
proof -
  have "map (\<lambda>(name, f). (name, feature_init_params fw f)) (features net) = features net"
    by (rule map_idI) (simp add: feature_init_params_id case_prod_unfold)
  then show ?thesis by (simp add: Jasper_init_params_def conv_init_params_id)
qed

text \<open>
  Claim C6. The loop body of \<open>_init_params\<close> re-initialises the weight and the bias of a
  module exactly when the module is an instance of \<open>nn.Conv2d\<close>. No class of which this
  file creates instances is a subclass of \<open>nn.Conv2d\<close>, and \<open>_init_params\<close> returns every
  model unchanged.
\<close>

theorem init_params_touches_no_parameter:
  "(isinstance cls C_Conv2d \<longrightarrow>
      init_params_body fw cls w b = (kaiming_uniform fw w, map_option (constant_init fw) b))
   \<and> (\<not> isinstance cls C_Conv2d \<longrightarrow> init_params_body fw cls w b = (w, b))
   \<and> (\<forall>c \<in> set instantiated_classes. \<not> isinstance c C_Conv2d)
   \<and> Jasper_init_params fw net = net"
  by (simp add: init_params_body_def Jasper_init_params_id instantiated_classes_def
        isinstance_def)

theorem init_params_touches_no_parameter_witness:
  "init_params_body shape_framework C_Conv2d (weight (demo_conv True)) (Some [5])
     = (weight (demo_conv True), Some [0])
   \<and> init_params_body shape_framework C_MaskConv1d (weight (demo_conv True)) (Some [5])
     = (weight (demo_conv True), Some [5])
   \<and> Jasper_init_params shape_framework demo_jasper = demo_jasper"
  using init_params_touches_no_parameter
          [of C_Conv2d shape_framework "weight (demo_conv True)" "Some [5]" demo_jasper]
        init_params_touches_no_parameter
          [of C_MaskConv1d shape_framework "weight (demo_conv True)" "Some [5]" demo_jasper]
  by (simp add: isinstance_def shape_framework_def)

lemma getitem_ok:
  "- int (length xs) \<le> i \<Longrightarrow> i < int (length xs) \<Longrightarrow> \<exists>v. getitem xs i = Inr v"
  by (simp add: getitem_def)

lemma expand_stages_spec_length: "3 \<le> length (expand_stages_spec m table)"
  by (simp add: expand_stages_spec_def)

section \<open>Shapes through the model\<close>

lemma lib_conv:
  "library_keeps_shapes fw \<Longrightarrow> conv1d_accepts x w s p d g \<Longrightarrow>
     \<exists>y. F_conv1d fw x w b s p d g = Inr y \<and> size0 y = size0 x \<and> size1 y = size0 w
          \<and> size2 y = conv1d_out_size x w s p d"
  by (simp add: library_keeps_shapes_def conv1d_keeps_shape_def)

lemma lib_conv_new:
  "library_keeps_shapes fw \<Longrightarrow> 0 < inc \<Longrightarrow> 0 < outc \<Longrightarrow> 0 < k \<Longrightarrow> 0 < s \<Longrightarrow> 0 \<le> p
     \<Longrightarrow> 0 < d \<Longrightarrow> \<exists>v. Conv1d_new fw inc outc k s p d 1 b = Inr v"
  by (simp add: library_keeps_shapes_def constructors_accept_def)

lemma lib_bn_new:
  "library_keeps_shapes fw \<Longrightarrow> 0 < n \<Longrightarrow>
     \<exists>m. BatchNorm1d_new fw n e = Inr m \<and> num_features m = n"
  by (simp add: library_keeps_shapes_def constructors_accept_def)

lemma lib_dropout_new:
  "library_keeps_shapes fw \<Longrightarrow> 0 \<le> p \<Longrightarrow> p \<le> 1 \<Longrightarrow> \<exists>v. Dropout_new fw p = Inr v"
  by (simp add: library_keeps_shapes_def constructors_accept_def)

lemma lib_bn:
  "library_keeps_shapes fw \<Longrightarrow> num_features m = int (size1 x) \<Longrightarrow>
     \<exists>y. batch_norm fw m x = Inr y \<and> same_shape y x"
  by (simp add: library_keeps_shapes_def elementwise_keep_shape_def)

lemma lib_relu: "library_keeps_shapes fw \<Longrightarrow> same_shape (relu fw x) x"
  by (simp add: library_keeps_shapes_def elementwise_keep_shape_def)

lemma lib_dropout: "library_keeps_shapes fw \<Longrightarrow> same_shape (dropout_apply fw p x) x"
  by (simp add: library_keeps_shapes_def elementwise_keep_shape_def)

lemma lib_add:
  "library_keeps_shapes fw \<Longrightarrow> same_shape x y \<Longrightarrow>
     \<exists>z. tensor_add fw x y = Inr z \<and> same_shape z x"
  by (simp add: library_keeps_shapes_def elementwise_keep_shape_def)

lemma masked_fill_shape:
  assumes "length msk = size0 x"
  shows "\<exists>xm. masked_fill x msk v = Inr xm \<and> size0 xm = size0 x \<and> size1 xm = size1 x
              \<and> size2 xm = size2 x"
  using assms by (auto simp add: masked_fill_def Let_def)

lemma MaskConv1d_forward_shape:
  assumes lib: "library_keeps_shapes fw"
    and m: "MaskConv1d_init fw inc outc k s p d 1 b um = Inr m"
    and pos: "0 < inc" "0 < outc" "0 < k" "0 < s" "0 \<le> p" "0 < d"
    and x: "size1 x = nat inc" "length x_len = size0 x"
    and fit: "d * (k - 1) + 1 \<le> int (size2 x) + 2 * p"
    and small: "fits64 (2 * p)" "fits64 (d * (k - 1))" "fits64 s"
  shows "\<exists>y yl. MaskConv1d_forward fw m x x_len = Inr (y, yl) \<and> size0 y = size0 x
           \<and> size1 y = nat outc \<and> size2 y = out_time k s p d (size2 x)
           \<and> length yl = length x_len"
proof -
  from m obtain w bs where
    meq: "m = \<lparr>in_channels = inc, out_channels = outc, kernel_size = k, stride = s,
              padding = p, dilation = d, Conv1d.groups = 1,
              weight = \<lparr>size0 = nat outc, size1 = nat inc, size2 = nat k, storage = w\<rparr>,
              bias = bs, use_mask = um\<rparr>"
    by (auto simp add: MaskConv1d_init_def Conv1d_init_def bindE_eq_Inr Conv1d.extend_def)
  let ?w = "\<lparr>size0 = nat outc, size1 = nat inc, size2 = nat k, storage = w\<rparr>"
  have acc: "conv1d_accepts x' ?w s p d 1"
    if "size1 x' = size1 x" "size2 x' = size2 x" for x' :: "'a tensor"
    using that pos x fit by (simp add: conv1d_accepts_def)
  have sz: "conv1d_out_size x' ?w s p d = out_time k s p d (size2 x)"
    if "size2 x' = size2 x" for x' :: "'a tensor"
    using that pos by (simp add: conv1d_out_size_def out_time_def)
  show ?thesis
  proof (cases um)
    case False
    obtain y where y: "F_conv1d fw x ?w bs s p d 1 = Inr y" "size0 y = size0 x"
      "size1 y = size0 ?w" "size2 y = conv1d_out_size x ?w s p d"
      using lib_conv[OF lib acc[of x]] by auto
    then show ?thesis using False sz[of x]
      by (simp add: MaskConv1d_forward_def meq)
  next
    case True
    obtain xm where xm: "masked_fill x (length_mask (size2 x) x_len) 0 = Inr xm"
      "size0 xm = size0 x" "size1 xm = size1 x" "size2 xm = size2 x"
      using masked_fill_shape[of "length_mask (size2 x) x_len" x 0] x(2)
      by (auto simp add: length_mask_def)
    obtain y where y: "F_conv1d fw xm ?w bs s p d 1 = Inr y" "size0 y = size0 xm"
      "size1 y = size0 ?w" "size2 y = conv1d_out_size xm ?w s p d"
      using lib_conv[OF lib acc[of xm]] xm by auto
    have "stride m \<noteq> 0" "fits64 (2 * padding m)"
      "fits64 (dilation m * (kernel_size m - 1))" "fits64 (stride m)"
      using pos(4) small by (simp_all add: meq)
    then obtain yl where yl: "MaskConv1d_lengths fw m x_len = Inr yl" "length yl = length x_len"
      using MaskConv1d_lengths_total[of m fw x_len] by blast
    have "MaskConv1d_forward fw m x x_len = Inr (y, yl)"
      using True xm(1) yl(1) y(1) by (simp add: MaskConv1d_forward_def MaskConv1d_mask_def meq Let_def)
    then show ?thesis using sz[of xm] xm y yl(2) by simp
  qed
qed

lemma same_shape_sizes:
  "same_shape y x \<Longrightarrow> size0 y = size0 x \<and> size1 y = size1 x \<and> size2 y = size2 x"
  by (simp add: same_shape_def)

lemma same_shape_trans: "same_shape z y \<Longrightarrow> same_shape y x \<Longrightarrow> same_shape z x"
  by (simp add: same_shape_def)

lemma same_shape_refl: "same_shape x x"
  by (simp add: same_shape_def)

lemma bn_activ_dropout_shape:
  assumes lib: "library_keeps_shapes fw"
    and bn: "ubn \<longrightarrow> (\<exists>m. bnm = Some m \<and> num_features m = int (size1 x))"
    and act: "act \<longrightarrow> actm \<noteq> None"
    and dr: "udrop \<longrightarrow> drm \<noteq> None"
  shows "\<exists>y. bn_activ_dropout fw ubn bnm act actm udrop drm x = Inr y \<and> same_shape y x"
proof -
  obtain x1 where x1: "(if ubn then bindE (attr bnm) (\<lambda>b. batch_norm fw b x) else Inr x) = Inr x1"
    "same_shape x1 x"
  proof (cases ubn)
    case True
    then obtain m where m: "bnm = Some m" "num_features m = int (size1 x)" using bn by blast
    obtain y where "batch_norm fw m x = Inr y" "same_shape y x" using lib_bn[OF lib m(2)] by blast
    then show ?thesis using that True m by (simp add: attr_def)
  next
    case False
    then show ?thesis using that by (simp add: same_shape_refl)
  qed
  obtain x2 where x2: "(if act then bindE (attr actm) (\<lambda>a. Inr (relu fw x1)) else Inr x1) = Inr x2"
    "same_shape x2 x1"
  proof (cases act)
    case True
    then obtain a where "actm = Some a" using act by auto
    then show ?thesis using that True lib_relu[OF lib] by (simp add: attr_def)
  next
    case False
    then show ?thesis using that by (simp add: same_shape_refl)
  qed
  obtain x3 where x3: "(if udrop then bindE (attr drm) (\<lambda>p. Inr (dropout_apply fw p x2)) else Inr x2)
                         = Inr x3" "same_shape x3 x2"
  proof (cases udrop)
    case True
    then obtain p where "drm = Some p" using dr by auto
    then show ?thesis using that True lib_dropout[OF lib] by (simp add: attr_def)
  next
    case False
    then show ?thesis using that by (simp add: same_shape_refl)
  qed
  have "bn_activ_dropout fw ubn bnm act actm udrop drm x = Inr x3"
    using x1(1) x2(1) x3(1) by (simp add: bn_activ_dropout_def)
  moreover have "same_shape x3 x"
    using x3(2) x2(2) x1(2) by (blast intro: same_shape_trans)
  ultimately show ?thesis by blast
qed

lemma MaskConv1d_init_ok:
  assumes "library_keeps_shapes fw" "0 < inc" "0 < outc" "0 < k" "0 < s" "0 \<le> p" "0 < d"
  shows "\<exists>m. MaskConv1d_init fw inc outc k s p d 1 b um = Inr m"
proof -
  obtain v where "Conv1d_new fw inc outc k s p d 1 b = Inr v"
    using lib_conv_new[OF assms] by blast
  then show ?thesis
    by (cases v) (simp add: MaskConv1d_init_def Conv1d_init_def)
qed

lemma MaskConvBlock1d_ok:
  assumes lib: "library_keeps_shapes fw"
    and pos: "0 < inc" "0 < outc" "0 < k" "0 < s" "0 \<le> p" "0 < d"
    and dr: "0 \<le> dr" "dr \<le> 1"
    and fit: "\<And>T. 0 < T \<Longrightarrow> d * (k - 1) + 1 \<le> int T + 2 * p"
    and small: "fits64 (2 * p)" "fits64 (d * (k - 1))" "fits64 s"
  shows "\<exists>blk. MaskConvBlock1d_init fw inc outc k s p d 1 b True bn_eps act dr = Inr blk
           \<and> maps_shape (\<lambda>l. l) (MaskConvBlock1d_forward fw blk) (nat inc) (nat outc)
                 (out_time k s p d)"
proof -
  obtain cv where cv: "MaskConv1d_init fw inc outc k s p d 1 b True = Inr cv"
    using MaskConv1d_init_ok[OF lib pos] by blast
  obtain bnm where bnm: "BatchNorm1d_new fw outc bn_eps = Inr bnm" "num_features bnm = outc"
    using lib_bn_new[OF lib pos(2)] by blast
  obtain drv where drv: "Dropout_new fw dr = Inr drv"
    using lib_dropout_new[OF lib dr] by blast
  let ?blk = "\<lparr>MaskConvBlock1d.activate = (act \<noteq> None), use_bn = True,
               use_dropout = (dr \<noteq> 0), conv = cv, bn = Some bnm, activ = act,
               dropout = (if dr \<noteq> 0 then Some drv else None)\<rparr>"
  have init: "MaskConvBlock1d_init fw inc outc k s p d 1 b True bn_eps act dr = Inr ?blk"
    by (simp add: MaskConvBlock1d_init_def Let_def cv bnm drv when_new_def)
  have "maps_shape (\<lambda>l. l) (MaskConvBlock1d_forward fw ?blk) (nat inc) (nat outc)
          (out_time k s p d)"
    unfolding maps_shape_def
  proof (intro allI impI)
    fix x :: "'a tensor" and x_len :: "int list"
    assume a: "size1 x = nat inc \<and> length x_len = size0 x \<and> 0 < size2 x"
    then have a1: "size1 x = nat inc" and a2: "length x_len = size0 x" and a3: "0 < size2 x"
      by simp_all
    obtain y1 yl where y1: "MaskConv1d_forward fw cv x x_len = Inr (y1, yl)"
      "size0 y1 = size0 x" "size1 y1 = nat outc" "size2 y1 = out_time k s p d (size2 x)"
      "length yl = length x_len"
      using MaskConv1d_forward_shape[OF lib cv pos a1 a2 fit[OF a3] small] by auto
    have nf: "num_features bnm = int (size1 y1)" using bnm(2) y1(3) pos(2) by simp
    obtain y2 where y2: "bn_activ_dropout fw True (Some bnm) (act \<noteq> None) act (dr \<noteq> 0)
                           (if dr \<noteq> 0 then Some drv else None) y1 = Inr y2" "same_shape y2 y1"
      using bn_activ_dropout_shape[OF lib, of True "Some bnm" y1 "act \<noteq> None" act "dr \<noteq> 0"
              "if dr \<noteq> 0 then Some drv else None"] nf
      by auto
    show "\<exists>y yl. MaskConvBlock1d_forward fw ?blk x x_len = Inr (y, yl) \<and> size0 y = size0 x
            \<and> size1 y = nat outc \<and> size2 y = out_time k s p d (size2 x)
            \<and> length yl = length x_len"
      using y1 y2 same_shape_sizes[OF y2(2)]
      by (simp add: MaskConvBlock1d_forward_def)
  qed
  with init show ?thesis by blast
qed

lemma odd_half: "odd k \<Longrightarrow> 2 * (k div 2) = k - (1::int)"
  by (metis add_diff_cancel_right' odd_two_times_div_two_succ)

lemma out_time_same:
  assumes "odd k" and "0 < T"
  shows "out_time k 1 (k div 2) 1 T = T"
  using assms odd_half[OF assms(1)] by (simp add: out_time_def)

lemma out_time_half:
  assumes "odd k" and "0 < T"
  shows "out_time k 2 (k div 2) 1 T = (T + 1) div 2"
proof -
  have "(int T + 2 * (k div 2) - (k - 1) - 1) div 2 + 1 = (int T + 1) div 2"
    using odd_half[OF assms(1)] by simp
  then show ?thesis by (simp add: out_time_def nat_div_distrib nat_add_distrib)
qed

lemma out_time_dilated:
  assumes "0 < T"
  shows "out_time k 1 ((2 * k) div 2 - 1) 2 T = T"
  using assms by (simp add: out_time_def)

lemma maps_shapeD:
  assumes "maps_shape wrap f cin cout tf"
    and "size1 x = cin" "length x_len = size0 x" "0 < size2 x"
  obtains y yl where "f x (wrap x_len) = Inr (y, wrap yl)" "size0 y = size0 x" "size1 y = cout"
    "size2 y = tf (size2 x)" "length yl = length x_len"
  using assms unfolding maps_shape_def by blast

lemma maps_shape_time_cong:
  assumes "maps_shape wrap f cin cout tf" and "\<And>T. 0 < T \<Longrightarrow> tf T = tf' T"
  shows "maps_shape wrap f cin cout tf'"
  using assms unfolding maps_shape_def by metis

lemma maps_shape_nil: "maps_shape wrap (DualPathSequential_forward g []) c c (\<lambda>T. T)"
  by (auto simp add: maps_shape_def)

lemma maps_shape_cons:
  fixes g :: "'m \<Rightarrow> 'a tensor \<Rightarrow> 'l \<Rightarrow> error + ('a tensor \<times> 'l)"
  assumes m: "maps_shape wrap (g m) cin cmid tf1"
    and rest: "maps_shape wrap (DualPathSequential_forward g ms) cmid cout tf2"
    and pos: "\<And>T. 0 < T \<Longrightarrow> 0 < tf1 T"
  shows "maps_shape wrap (DualPathSequential_forward g (m # ms)) cin cout (\<lambda>T. tf2 (tf1 T))"
  unfolding maps_shape_def
proof (intro allI impI)
  fix x :: "'a tensor" and x_len :: "int list"
  assume a: "size1 x = cin \<and> length x_len = size0 x \<and> 0 < size2 x"
  then obtain y yl where y: "g m x (wrap x_len) = Inr (y, wrap yl)" "size0 y = size0 x"
    "size1 y = cmid" "size2 y = tf1 (size2 x)" "length yl = length x_len"
    using maps_shapeD[OF m, of x x_len] by metis
  have "0 < size2 y" using y(4) pos a by simp
  then obtain z zl where z: "DualPathSequential_forward g ms y (wrap yl) = Inr (z, wrap zl)"
    "size0 z = size0 y" "size1 z = cout" "size2 z = tf2 (size2 y)" "length zl = length yl"
    using maps_shapeD[OF rest, of y yl] y a by metis
  show "\<exists>y yl. DualPathSequential_forward g (m # ms) x (wrap x_len) = Inr (y, wrap yl)
          \<and> size0 y = size0 x \<and> size1 y = cout \<and> size2 y = tf2 (tf1 (size2 x))
          \<and> length yl = length x_len"
    using y z by (intro exI[of _ z] exI[of _ zl]) simp
qed

lemma maps_shape_append:
  fixes g :: "'m \<Rightarrow> 'a tensor \<Rightarrow> 'l \<Rightarrow> error + ('a tensor \<times> 'l)"
  assumes a: "maps_shape wrap (DualPathSequential_forward g ms) cin cmid (\<lambda>T. T)"
    and b: "maps_shape wrap (DualPathSequential_forward g ns) cmid cout tf"
  shows "maps_shape wrap (DualPathSequential_forward g (ms @ ns)) cin cout tf"
proof -
  have split: "DualPathSequential_forward g (ms @ ns) x l =
                 bindE (DualPathSequential_forward g ms x l)
                   (\<lambda>(x, l). DualPathSequential_forward g ns x l)" for x l
  proof (induction ms arbitrary: x l)
    case Nil
    show ?case by simp
  next
    case (Cons m ms)
    show ?case by (cases "g m x l") (auto simp add: Cons)
  qed
  show ?thesis
    unfolding maps_shape_def
  proof (intro allI impI)
    fix x :: "'a tensor" and x_len :: "int list"
    assume h: "size1 x = cin \<and> length x_len = size0 x \<and> 0 < size2 x"
    then obtain y yl where y: "DualPathSequential_forward g ms x (wrap x_len) = Inr (y, wrap yl)"
      "size0 y = size0 x" "size1 y = cmid" "size2 y = size2 x" "length yl = length x_len"
      using maps_shapeD[OF a, of x x_len] by metis
    then obtain z zl where z: "DualPathSequential_forward g ns y (wrap yl) = Inr (z, wrap zl)"
      "size0 z = size0 y" "size1 z = cout" "size2 z = tf (size2 y)" "length zl = length yl"
      using maps_shapeD[OF b, of y yl] h by metis
    show "\<exists>y yl. DualPathSequential_forward g (ms @ ns) x (wrap x_len) = Inr (y, wrap yl)
            \<and> size0 y = size0 x \<and> size1 y = cout \<and> size2 y = tf (size2 x)
            \<and> length yl = length x_len"
      using y z by (intro exI[of _ z] exI[of _ zl]) (simp add: split)
  qed
qed

lemma plain_block_ok:
  assumes lib: "library_keeps_shapes fw"
    and pos: "0 < inc" "0 < outc" "0 < k" "0 < s" "0 \<le> p" "0 < d"
    and dr: "0 \<le> dr" "dr \<le> 1"
    and fit: "\<And>T. 0 < T \<Longrightarrow> d * (k - 1) + 1 \<le> int T + 2 * p"
    and small: "fits64 (2 * p)" "fits64 (d * (k - 1))" "fits64 s"
  shows "\<exists>blk. block_class False fw inc outc k s p d 1 b True bn_eps act dr = Inr blk
           \<and> maps_shape (\<lambda>l. l) (block_forward fw blk) (nat inc) (nat outc) (out_time k s p d)"
proof -
  obtain m where m: "MaskConvBlock1d_init fw inc outc k s p d 1 b True bn_eps act dr = Inr m"
    "maps_shape (\<lambda>l. l) (MaskConvBlock1d_forward fw m) (nat inc) (nat outc) (out_time k s p d)"
    using MaskConvBlock1d_ok[OF lib pos dr fit small] by blast
  have "block_forward fw (Plain m) = MaskConvBlock1d_forward fw m"
    by (intro ext) (simp add: block_forward_def)
  then show ?thesis using m by (simp add: block_class_def)
qed

lemma small_kernel:
  assumes "0 < k" and "k < 2 ^ 62"
  shows "fits64 (2 * (k div 2))" "fits64 (1 * (k - 1))" "fits64 (2 * ((2 * k) div 2 - 1))"
    "fits64 (2 * (k - 1))" "fits64 1" "fits64 2"
proof -
  have h: "0 \<le> k div 2" "k div 2 \<le> k" using assms(1) by simp_all
  show "fits64 (2 * (k div 2))" using h assms by (simp add: fits64_def)
  show "fits64 (1 * (k - 1))" "fits64 (2 * ((2 * k) div 2 - 1))"
    "fits64 (2 * (k - 1))" "fits64 1" "fits64 2"
    using assms by (simp_all add: fits64_def)
qed

lemma same_time_fit:
  assumes "odd k" "0 < (T::nat)"
  shows "1 * (k - 1) + 1 \<le> int T + 2 * (k div 2)"
  using assms odd_half[OF assms(1)] by simp

lemma JasperUnit_body_ok:
  assumes lib: "library_keeps_shapes fw"
    and pos: "0 < outc" "0 < k" "odd k"
    and dr: "0 \<le> dr" "dr \<le> 1"
    and small: "k < 2 ^ 62"
  shows "0 < inc \<Longrightarrow>
         \<exists>bs. JasperUnit_body fw False outc k bn_eps dr repeat inc is = Inr bs
           \<and> maps_shape (\<lambda>l. l) (DualPathSequential_forward (block_forward fw) bs) (nat inc)
                 (if is = [] then nat inc else nat outc) (\<lambda>T. T)"
proof (induction "is" arbitrary: inc)
  case Nil
  show ?case by (simp add: maps_shape_nil)
next
  case (Cons i rest)
  let ?act = "if int i < repeat - 1 then Some ReLU else None"
  let ?dr = "if int i < repeat - 1 then dr else 0"
  have dri: "0 \<le> ?dr" "?dr \<le> 1" using dr by simp_all
  have one: "(0::int) < 1" by simp
  have p0: "0 \<le> k div 2" using pos(2) by simp
  have fit: "\<And>T. 0 < T \<Longrightarrow> 1 * (k - 1) + 1 \<le> int T + 2 * (k div 2)"
    by (rule same_time_fit[OF pos(3)])
  obtain blk where blk:
    "block_class False fw inc outc k 1 (k div 2) 1 1 False True bn_eps ?act ?dr = Inr blk"
    "maps_shape (\<lambda>l. l) (block_forward fw blk) (nat inc) (nat outc) (out_time k 1 (k div 2) 1)"
    using plain_block_ok[OF lib Cons.prems pos(1) pos(2) one p0 one dri(1) dri(2) fit
            small_kernel(1,2,5)[OF pos(2) small]]
    by blast
  have blk_id: "maps_shape (\<lambda>l. l) (block_forward fw blk) (nat inc) (nat outc) (\<lambda>T. T)"
    by (rule maps_shape_time_cong[OF blk(2)]) (rule out_time_same[OF pos(3)])
  obtain bs where bs: "JasperUnit_body fw False outc k bn_eps dr repeat outc rest = Inr bs"
    "maps_shape (\<lambda>l. l) (DualPathSequential_forward (block_forward fw) bs) (nat outc)
       (if rest = [] then nat outc else nat outc) (\<lambda>T. T)"
    using Cons.IH[OF pos(1)] by blast
  have "maps_shape (\<lambda>l. l) (DualPathSequential_forward (block_forward fw) (blk # bs)) (nat inc)
          (nat outc) (\<lambda>T. T)"
    using maps_shape_cons[where g = "block_forward fw" and m = blk and ms = bs
            and ?tf1.0 = "\<lambda>T. T" and ?tf2.0 = "\<lambda>T. T" and cout = "nat outc", OF blk_id]
      bs(2)
    by simp
  then show ?case using blk(1) bs(1)
    by (cases "int i < repeat - 1") (simp_all add: Let_def)
qed

lemma out_time_pointwise: "0 < T \<Longrightarrow> out_time 1 1 0 1 T = T"
  by (simp add: out_time_def)

lemma JasperUnit_ok:
  assumes lib: "library_keeps_shapes fw"
    and pos: "0 < inc" "0 < outc" "0 < k" "odd k"
    and dr: "0 \<le> dr" "dr \<le> 1"
    and rep: "1 \<le> repeat"
    and small: "k < 2 ^ 62"
  shows "\<exists>u. JasperUnit_init fw (Chan inc) outc k bn_eps dr repeat False False = Inr u
           \<and> maps_shape Len (JasperUnit_forward fw u) (nat inc) (nat outc) (\<lambda>T. T)"
proof -
  have one: "(0::int) < 1" and zero: "(0::int) \<le> 0" and r0: "(0::real) \<le> 0" "(0::real) \<le> 1"
    by simp_all
  have fit1: "\<And>T. 0 < T \<Longrightarrow> (1::int) * (1 - 1) + 1 \<le> int T + 2 * 0" by simp
  have sm1: "fits64 (2 * 0)" "fits64 (1 * (1 - 1))" "fits64 1" by (simp_all add: fits64_def)
  obtain idb where idb:
    "MaskConvBlock1d_init fw inc outc 1 1 0 1 1 False True bn_eps None 0 = Inr idb"
    "maps_shape (\<lambda>l. l) (MaskConvBlock1d_forward fw idb) (nat inc) (nat outc) (out_time 1 1 0 1)"
    using MaskConvBlock1d_ok[OF lib pos(1) pos(2) one one zero one r0 fit1 sm1] by blast
  have idb_id: "maps_shape (\<lambda>l. l) (MaskConvBlock1d_forward fw idb) (nat inc) (nat outc) (\<lambda>T. T)"
    by (rule maps_shape_time_cong[OF idb(2)]) (rule out_time_pointwise)
  have ne: "[0..<nat repeat] \<noteq> []" using rep by simp
  obtain bs where bs:
    "JasperUnit_body fw False outc k bn_eps dr repeat inc [0..<nat repeat] = Inr bs"
    "maps_shape (\<lambda>l. l) (DualPathSequential_forward (block_forward fw) bs) (nat inc) (nat outc)
       (\<lambda>T. T)"
    using JasperUnit_body_ok[OF lib pos(2,3,4) dr small pos(1), of bn_eps repeat "[0..<nat repeat]"] ne
    by auto
  obtain drv where drv: "Dropout_new fw dr = Inr drv"
    using lib_dropout_new[OF lib dr] by blast
  let ?u = "\<lparr>JasperUnit.use_dropout = (dr \<noteq> 0), use_dr = False, identity_block = Single idb,
             body = bs, activ = ReLU, dropout = (if dr \<noteq> 0 then Some drv else None)\<rparr>"
  have init: "JasperUnit_init fw (Chan inc) outc k bn_eps dr repeat False False = Inr ?u"
    using idb(1) bs(1) drv
    by (simp add: JasperUnit_init_def Let_def mask_conv1d1_block_def when_new_def)
  have "maps_shape Len (JasperUnit_forward fw ?u) (nat inc) (nat outc) (\<lambda>T. T)"
    unfolding maps_shape_def
  proof (intro allI impI)
    fix x :: "'a tensor" and x_len :: "int list"
    assume a: "size1 x = nat inc \<and> length x_len = size0 x \<and> 0 < size2 x"
    then have a1: "size1 x = nat inc" and a2: "length x_len = size0 x" and a3: "0 < size2 x"
      by simp_all
    obtain idn il where idn: "MaskConvBlock1d_forward fw idb x x_len = Inr (idn, il)"
      "size0 idn = size0 x" "size1 idn = nat outc" "size2 idn = size2 x"
      using maps_shapeD[OF idb_id a1 a2 a3] by metis
    obtain y yl where y: "DualPathSequential_forward (block_forward fw) bs x x_len = Inr (y, yl)"
      "size0 y = size0 x" "size1 y = nat outc" "size2 y = size2 x" "length yl = length x_len"
      using maps_shapeD[OF bs(2) a1 a2 a3] by metis
    have "same_shape y idn" using y idn by (simp add: same_shape_def)
    then obtain z where z: "tensor_add fw y idn = Inr z" "same_shape z y"
      using lib_add[OF lib] by blast
    let ?r = "relu fw z"
    let ?d = "if dr \<noteq> 0 then dropout_apply fw drv ?r else ?r"
    have shape: "same_shape ?d y"
      using z(2) lib_relu[OF lib, of z] lib_dropout[OF lib, of drv ?r]
      by (auto intro: same_shape_trans)
    have "JasperUnit_forward fw ?u x (Len x_len) = Inr (?d, Len yl)"
      using idn(1) y(1) z(1)
      by (simp add: JasperUnit_forward_def Let_def attr_def)
    then show "\<exists>y yl. JasperUnit_forward fw ?u x (Len x_len) = Inr (y, Len yl)
                 \<and> size0 y = size0 x \<and> size1 y = nat outc \<and> size2 y = size2 x
                 \<and> length yl = length x_len"
      using same_shape_sizes[OF shape] y by (intro exI[of _ ?d] exI[of _ yl]) simp
  qed
  with init show ?thesis by blast
qed

lemma Jasper_units_ok:
  assumes lib: "library_keeps_shapes fw" and rep: "1 \<le> repeat"
  shows "0 < inc \<Longrightarrow> list_all unit_spec_ok specs \<Longrightarrow>
         \<exists>us lastc. Jasper_units fw bn_eps repeat False False inc lst i specs = Inr (us, lastc)
           \<and> 0 < lastc
           \<and> lastc = (if specs = [] then inc else fst (last specs))
           \<and> maps_shape Len (DualPathSequential_forward (feature_forward fw) (map snd us))
                 (nat inc) (nat lastc) (\<lambda>T. T)"
proof (induction specs arbitrary: inc lst i)
  case Nil
  then show ?case by (simp add: maps_shape_nil)
next
  case (Cons sp rest)
  obtain outc k dr where sp: "sp = (outc, k, dr)" by (cases sp) auto
  have restok: "list_all unit_spec_ok rest" using Cons.prems(2) by simp
  have "unit_spec_ok (outc, k, dr)" using Cons.prems(2) by (simp add: sp)
  then have ok: "0 < outc" "0 < k" "odd k" "0 \<le> dr" "dr \<le> 1" and sm: "k < 2 ^ 62"
    by (simp_all add: unit_spec_ok_def)
  obtain u where u: "JasperUnit_init fw (Chan inc) outc k bn_eps dr repeat False False = Inr u"
    "maps_shape Len (JasperUnit_forward fw u) (nat inc) (nat outc) (\<lambda>T. T)"
    using JasperUnit_ok[OF lib Cons.prems(1) ok rep sm] by blast
  obtain us lastc where us:
    "Jasper_units fw bn_eps repeat False False outc (lst @ [inc]) (i + 1) rest = Inr (us, lastc)"
    "0 < lastc" "lastc = (if rest = [] then outc else fst (last rest))"
    "maps_shape Len (DualPathSequential_forward (feature_forward fw) (map snd us))
       (nat outc) (nat lastc) (\<lambda>T. T)"
    using Cons.IH[OF ok(1) restok] by blast
  have fu: "feature_forward fw (Unit u) = JasperUnit_forward fw u"
    by (intro ext) (simp add: feature_forward_def)
  have "maps_shape Len (DualPathSequential_forward (feature_forward fw) (Unit u # map snd us))
          (nat inc) (nat lastc) (\<lambda>T. T)"
    using maps_shape_cons[where g = "feature_forward fw" and m = "Unit u" and ms = "map snd us"
            and ?tf1.0 = "\<lambda>T. T" and ?tf2.0 = "\<lambda>T. T" and cout = "nat lastc"
            and cmid = "nat outc" and cin = "nat inc" and wrap = Len]
      u(2) us(4) fu
    by simp
  then show ?case using u(1) us(1,2,3)
    by (simp add: sp Let_def)
qed

lemma maps_shape_single:
  fixes g :: "'m \<Rightarrow> 'a tensor \<Rightarrow> 'l \<Rightarrow> error + ('a tensor \<times> 'l)"
  assumes "maps_shape wrap (g m) cin cout tf"
  shows "maps_shape wrap (DualPathSequential_forward g [m]) cin cout tf"
  unfolding maps_shape_def
proof (intro allI impI)
  fix x :: "'a tensor" and x_len :: "int list"
  assume a: "size1 x = cin \<and> length x_len = size0 x \<and> 0 < size2 x"
  then obtain y yl where y: "g m x (wrap x_len) = Inr (y, wrap yl)" "size0 y = size0 x"
    "size1 y = cout" "size2 y = tf (size2 x)" "length yl = length x_len"
    using maps_shapeD[OF assms, of x x_len] by metis
  then show "\<exists>y yl. DualPathSequential_forward g [m] x (wrap x_len) = Inr (y, wrap yl)
          \<and> size0 y = size0 x \<and> size1 y = cout \<and> size2 y = tf (size2 x)
          \<and> length yl = length x_len"
    by (intro exI[of _ y] exI[of _ yl]) simp
qed

lemma dilated_fit: "0 < (T::nat) \<Longrightarrow> 2 * (k - 1) + 1 \<le> int T + 2 * ((2 * k) div 2 - 1)"
  by simp

lemma JasperFinalBlock_ok:
  assumes lib: "library_keeps_shapes fw" and inc: "0 < inc"
    and g2: "getitem channels (-2) = Inr c2" "getitem kernel_sizes (-2) = Inr k2"
      "getitem dropout_rates (-2) = Inr d2"
    and g1: "getitem channels (-1) = Inr c1" "getitem kernel_sizes (-1) = Inr k1"
      "getitem dropout_rates (-1) = Inr d1"
    and v2: "0 < c2" "0 < k2" "0 \<le> d2" "d2 \<le> 1"
    and v1: "0 < c1" "0 < k1" "odd k1" "0 \<le> d1" "d1 \<le> 1"
    and small: "k2 < 2 ^ 62" "k1 < 2 ^ 62"
  shows "\<exists>fb. JasperFinalBlock_init fw inc channels kernel_sizes bn_eps dropout_rates False False
                 = Inr fb
           \<and> maps_shape Len (JasperFinalBlock_forward fw fb) (nat inc) (nat c1) (\<lambda>T. T)"
proof -
  have one: "(0::int) < 1" and two: "(0::int) < 2" by simp_all
  have p2: "0 \<le> (2 * k2) div 2 - 1" using v2(2) by simp
  have p1: "0 \<le> k1 div 2" using v1(2) by simp
  have fit2: "\<And>T. 0 < T \<Longrightarrow> 2 * (k2 - 1) + 1 \<le> int T + 2 * ((2 * k2) div 2 - 1)"
    by (rule dilated_fit)
  have fit1: "\<And>T. 0 < T \<Longrightarrow> 1 * (k1 - 1) + 1 \<le> int T + 2 * (k1 div 2)"
    by (rule same_time_fit[OF v1(3)])
  obtain b1 where b1:
    "block_class False fw inc c2 k2 1 ((2 * k2) div 2 - 1) 2 1 False True bn_eps (Some ReLU) d2
       = Inr b1"
    "maps_shape (\<lambda>l. l) (block_forward fw b1) (nat inc) (nat c2)
       (out_time k2 1 ((2 * k2) div 2 - 1) 2)"
    using plain_block_ok[OF lib inc v2(1) v2(2) one p2 two v2(3) v2(4) fit2
            small_kernel(3,4,5)[OF v2(2) small(1)]] by blast
  have b1_id: "maps_shape (\<lambda>l. l) (block_forward fw b1) (nat inc) (nat c2) (\<lambda>T. T)"
    by (rule maps_shape_time_cong[OF b1(2)]) (rule out_time_dilated)
  obtain b2 where b2:
    "MaskConvBlock1d_init fw c2 c1 k1 1 (k1 div 2) 1 1 False True bn_eps (Some ReLU) d1 = Inr b2"
    "maps_shape (\<lambda>l. l) (MaskConvBlock1d_forward fw b2) (nat c2) (nat c1)
       (out_time k1 1 (k1 div 2) 1)"
    using MaskConvBlock1d_ok[OF lib v2(1) v1(1) v1(2) one p1 one v1(4) v1(5) fit1
            small_kernel(1,2,5)[OF v1(2) small(2)]] by blast
  have b2_id: "maps_shape (\<lambda>l. l) (MaskConvBlock1d_forward fw b2) (nat c2) (nat c1) (\<lambda>T. T)"
    by (rule maps_shape_time_cong[OF b2(2)]) (rule out_time_same[OF v1(3)])
  let ?fb = "\<lparr>use_dr = False, conv1 = b1, conv2 = b2\<rparr>"
  have init: "JasperFinalBlock_init fw inc channels kernel_sizes bn_eps dropout_rates False False
                = Inr ?fb"
    using g2 g1 b1(1) b2(1) by (simp add: JasperFinalBlock_init_def)
  have "maps_shape Len (JasperFinalBlock_forward fw ?fb) (nat inc) (nat c1) (\<lambda>T. T)"
    unfolding maps_shape_def
  proof (intro allI impI)
    fix x :: "'a tensor" and x_len :: "int list"
    assume a: "size1 x = nat inc \<and> length x_len = size0 x \<and> 0 < size2 x"
    then have a1: "size1 x = nat inc" and a2: "length x_len = size0 x" and a3: "0 < size2 x"
      by simp_all
    obtain y yl where y: "block_forward fw b1 x x_len = Inr (y, yl)"
      "size0 y = size0 x" "size1 y = nat c2" "size2 y = size2 x" "length yl = length x_len"
      using maps_shapeD[OF b1_id a1 a2 a3] by metis
    have y3: "0 < size2 y" and y2: "length yl = size0 y" using y a2 a3 by simp_all
    obtain z zl where z: "MaskConvBlock1d_forward fw b2 y yl = Inr (z, zl)"
      "size0 z = size0 y" "size1 z = nat c1" "size2 z = size2 y" "length zl = length yl"
      using maps_shapeD[OF b2_id y(3) y2 y3] by metis
    show "\<exists>y yl. JasperFinalBlock_forward fw ?fb x (Len x_len) = Inr (y, Len yl)
            \<and> size0 y = size0 x \<and> size1 y = nat c1 \<and> size2 y = size2 x
            \<and> length yl = length x_len"
      using y z
      by (intro exI[of _ z] exI[of _ zl])
         (simp add: JasperFinalBlock_forward_def JasperFinalBlock_convs_def)
  qed
  with init show ?thesis by blast
qed

lemma getitem_in_set: "getitem xs i = Inr v \<Longrightarrow> v \<in> set xs"
  by (auto simp add: getitem_def split: if_splits)

lemma getitem_exists:
  "- int (length xs) \<le> i \<Longrightarrow> i < int (length xs) \<Longrightarrow> \<exists>v. getitem xs i = Inr v \<and> v \<in> set xs"
  using getitem_ok[of xs i] getitem_in_set[of xs i] by blast

lemma slice_subset: "set (slice_1_m2 xs) \<subseteq> set xs"
  unfolding slice_1_m2_def
  by (meson set_drop_subset set_take_subset subset_trans)

lemma units_specs_ok:
  assumes "\<forall>c\<in>set channels. 0 < c" and "\<forall>k\<in>set kernel_sizes. 0 < k \<and> odd k"
    and "\<forall>d\<in>set dropout_rates. 0 \<le> d \<and> d \<le> 1"
    and "\<forall>k\<in>set kernel_sizes. k < 2 ^ 62"
  shows "list_all unit_spec_ok
           (zip (slice_1_m2 channels) (zip (slice_1_m2 kernel_sizes) (slice_1_m2 dropout_rates)))"
  unfolding list_all_iff
proof
  fix sp assume sp: "sp \<in> set (zip (slice_1_m2 channels)
                       (zip (slice_1_m2 kernel_sizes) (slice_1_m2 dropout_rates)))"
  obtain c k d where e: "sp = (c, k, d)" by (cases sp) auto
  have "c \<in> set channels" using sp e slice_subset[of channels] by (auto dest: set_zip_leftD)
  moreover have kd: "(k, d) \<in> set (zip (slice_1_m2 kernel_sizes) (slice_1_m2 dropout_rates))"
    using sp e by (auto dest: set_zip_rightD)
  have "k \<in> set kernel_sizes" using kd slice_subset[of kernel_sizes] by (auto dest: set_zip_leftD)
  moreover have "d \<in> set dropout_rates"
    using kd slice_subset[of dropout_rates] by (auto dest: set_zip_rightD)
  ultimately show "unit_spec_ok sp" using assms by (simp add: e unit_spec_ok_def)
qed

lemma half_pos: "0 < (T::nat) \<Longrightarrow> 0 < (T + 1) div 2"
  by simp

lemma getitem_exists2:
  assumes "2 \<le> length xs"
  shows "\<exists>v. getitem xs 0 = Inr v \<and> v \<in> set xs"
    and "\<exists>v. getitem xs (-1) = Inr v \<and> v \<in> set xs"
    and "\<exists>v. getitem xs (-2) = Inr v \<and> v \<in> set xs"
  using assms by (auto intro!: getitem_exists)

lemma Jasper_ok:
  assumes lib: "library_keeps_shapes fw" and rep: "1 \<le> repeat"
    and inc: "0 < inc" and ncls: "0 < ncls"
    and chs: "\<forall>c\<in>set channels. 0 < c" "2 \<le> length channels"
    and ks: "\<forall>k\<in>set kernel_sizes. 0 < k \<and> odd k" "2 \<le> length kernel_sizes"
    and drs: "\<forall>d\<in>set dropout_rates. 0 \<le> d \<and> d \<le> 1" "2 \<le> length dropout_rates"
    and small: "\<forall>k\<in>set kernel_sizes. k < 2 ^ 62"
  shows "\<exists>net. Jasper_init fw channels kernel_sizes bn_eps dropout_rates repeat False False
                  inc ncls = Inr net
           \<and> maps_shape Len (Jasper_forward fw net) (nat inc) (nat ncls) (\<lambda>T. (T + 1) div 2)"
proof -
  have one: "(0::int) < 1" and two: "(0::int) < 2" and zero: "(0::int) \<le> 0" by simp_all
  obtain c0 where c0: "getitem channels 0 = Inr c0" "c0 \<in> set channels"
    using getitem_exists2(1)[OF chs(2)] by blast
  obtain k0 where k0: "getitem kernel_sizes 0 = Inr k0" "k0 \<in> set kernel_sizes"
    using getitem_exists2(1)[OF ks(2)] by blast
  obtain d0 where d0: "getitem dropout_rates 0 = Inr d0" "d0 \<in> set dropout_rates"
    using getitem_exists2(1)[OF drs(2)] by blast
  obtain c1 where c1: "getitem channels (-1) = Inr c1" "c1 \<in> set channels"
    using getitem_exists2(2)[OF chs(2)] by blast
  obtain k1 where k1: "getitem kernel_sizes (-1) = Inr k1" "k1 \<in> set kernel_sizes"
    using getitem_exists2(2)[OF ks(2)] by blast
  obtain d1 where d1: "getitem dropout_rates (-1) = Inr d1" "d1 \<in> set dropout_rates"
    using getitem_exists2(2)[OF drs(2)] by blast
  obtain c2 where c2: "getitem channels (-2) = Inr c2" "c2 \<in> set channels"
    using getitem_exists2(3)[OF chs(2)] by blast
  obtain k2 where k2: "getitem kernel_sizes (-2) = Inr k2" "k2 \<in> set kernel_sizes"
    using getitem_exists2(3)[OF ks(2)] by blast
  obtain d2 where d2: "getitem dropout_rates (-2) = Inr d2" "d2 \<in> set dropout_rates"
    using getitem_exists2(3)[OF drs(2)] by blast
  have v0: "0 < c0" "0 < k0" "odd k0" "0 \<le> d0" "d0 \<le> 1"
    using c0(2) k0(2) d0(2) chs(1) ks(1) drs(1) by auto
  have v1: "0 < c1" "0 < k1" "odd k1" "0 \<le> d1" "d1 \<le> 1"
    using c1(2) k1(2) d1(2) chs(1) ks(1) drs(1) by auto
  have v2: "0 < c2" "0 < k2" "0 \<le> d2" "d2 \<le> 1"
    using c2(2) k2(2) d2(2) chs(1) ks(1) drs(1) by auto
  have sm: "k0 < 2 ^ 62" "k1 < 2 ^ 62" "k2 < 2 ^ 62"
    using k0(2) k1(2) k2(2) small by auto
  \<comment> \<open>the init block\<close>
  have p0: "0 \<le> k0 div 2" using v0(2) by simp
  have fit0: "\<And>T. 0 < T \<Longrightarrow> 1 * (k0 - 1) + 1 \<le> int T + 2 * (k0 div 2)"
    by (rule same_time_fit[OF v0(3)])
  obtain ib where ib:
    "block_class False fw inc c0 k0 2 (k0 div 2) 1 1 False True bn_eps (Some ReLU) d0 = Inr ib"
    "maps_shape (\<lambda>l. l) (block_forward fw ib) (nat inc) (nat c0) (out_time k0 2 (k0 div 2) 1)"
    using plain_block_ok[OF lib inc v0(1) v0(2) two p0 one v0(4) v0(5) fit0
            small_kernel(1,2,6)[OF v0(2) sm(1)]] by blast
  have ib_half: "maps_shape (\<lambda>l. l) (block_forward fw ib) (nat inc) (nat c0) (\<lambda>T. (T + 1) div 2)"
    by (rule maps_shape_time_cong[OF ib(2)]) (rule out_time_half[OF v0(3)])
  have ib_feat: "maps_shape Len (feature_forward fw (InitBlock ib)) (nat inc) (nat c0)
                   (\<lambda>T. (T + 1) div 2)"
    unfolding maps_shape_def
  proof (intro allI impI)
    fix x :: "'a tensor" and x_len :: "int list"
    assume a: "size1 x = nat inc \<and> length x_len = size0 x \<and> 0 < size2 x"
    then have a1: "size1 x = nat inc" and a2: "length x_len = size0 x" and a3: "0 < size2 x"
      by simp_all
    obtain y yl where y: "block_forward fw ib x x_len = Inr (y, yl)"
      "size0 y = size0 x" "size1 y = nat c0" "size2 y = (size2 x + 1) div 2"
      "length yl = length x_len"
      using maps_shapeD[OF ib_half a1 a2 a3] by metis
    then show "\<exists>y yl. feature_forward fw (InitBlock ib) x (Len x_len) = Inr (y, Len yl)
            \<and> size0 y = size0 x \<and> size1 y = nat c0 \<and> size2 y = (size2 x + 1) div 2
            \<and> length yl = length x_len"
      by (intro exI[of _ y] exI[of _ yl]) (simp add: feature_forward_def)
  qed
  \<comment> \<open>the units\<close>
  let ?specs = "zip (slice_1_m2 channels) (zip (slice_1_m2 kernel_sizes)
                  (slice_1_m2 dropout_rates))"
  obtain us lastc where us:
    "Jasper_units fw bn_eps repeat False False c0 [] 0 ?specs = Inr (us, lastc)" "0 < lastc"
    "maps_shape Len (DualPathSequential_forward (feature_forward fw) (map snd us))
       (nat c0) (nat lastc) (\<lambda>T. T)"
    using Jasper_units_ok[OF lib rep v0(1) units_specs_ok[OF chs(1) ks(1) drs(1) small]] by blast
  \<comment> \<open>the final block\<close>
  obtain fb where fb:
    "JasperFinalBlock_init fw lastc channels kernel_sizes bn_eps dropout_rates False False = Inr fb"
    "maps_shape Len (JasperFinalBlock_forward fw fb) (nat lastc) (nat c1) (\<lambda>T. T)"
    using JasperFinalBlock_ok[OF lib us(2) c2(1) k2(1) d2(1) c1(1) k1(1) d1(1) v2 v1 sm(3) sm(2)] by blast
  have ff: "feature_forward fw (FinalBlock fb) = JasperFinalBlock_forward fw fb"
    by (intro ext) (simp add: feature_forward_def)
  have fin: "maps_shape Len (DualPathSequential_forward (feature_forward fw) [FinalBlock fb])
               (nat lastc) (nat c1) (\<lambda>T. T)"
    using maps_shape_single[where g = "feature_forward fw" and m = "FinalBlock fb"
            and wrap = Len and cin = "nat lastc" and cout = "nat c1" and tf = "\<lambda>T. T"] fb(2) ff
    by simp
  have tail: "maps_shape Len (DualPathSequential_forward (feature_forward fw)
                 (map snd us @ [FinalBlock fb])) (nat c0) (nat c1) (\<lambda>T. T)"
    by (rule maps_shape_append[OF us(3) fin])
  have feats: "maps_shape Len (DualPathSequential_forward (feature_forward fw)
                 (InitBlock ib # map snd us @ [FinalBlock fb])) (nat inc) (nat c1)
                 (\<lambda>T. (T + 1) div 2)"
    using maps_shape_cons[where g = "feature_forward fw" and m = "InitBlock ib"
            and ms = "map snd us @ [FinalBlock fb]" and wrap = Len
            and ?tf1.0 = "\<lambda>T. (T + 1) div 2" and ?tf2.0 = "\<lambda>T. T"
            and cin = "nat inc" and cmid = "nat c0" and cout = "nat c1"]
      ib_feat tail half_pos
    by simp
  \<comment> \<open>the output convolution\<close>
  obtain wv where wv: "Conv1d_new fw c1 ncls 1 1 0 1 1 True = Inr wv"
    using lib_conv_new[OF lib v1(1) ncls one one zero one] by blast
  obtain w bs where wb: "wv = (w, bs)" by (cases wv) auto
  let ?w = "\<lparr>size0 = nat ncls, size1 = nat c1, size2 = nat 1, storage = w\<rparr>"
  let ?oc = "\<lparr>in_channels = c1, out_channels = ncls, kernel_size = 1, stride = 1, padding = 0,
              dilation = 1, Conv1d.groups = 1, weight = ?w, bias = bs\<rparr>"
  have oc: "conv1d1 fw c1 ncls 1 1 True = Inr ?oc"
    using wv wb by (simp add: conv1d1_def Conv1d_init_def)
  let ?net = "\<lparr>in_size = None, num_classes = ncls,
               features = [(''init_block'', InitBlock ib)] @ us
                            @ [(''final_block'', FinalBlock fb)],
               output_conv = ?oc\<rparr>"
  have init: "Jasper_init fw channels kernel_sizes bn_eps dropout_rates repeat False False
                inc ncls = Inr ?net"
    using c0(1) k0(1) d0(1) ib(1) us(1) fb(1) c1(1) oc
    by (simp add: Jasper_init_def Jasper_init_params_id)
  have "maps_shape Len (Jasper_forward fw ?net) (nat inc) (nat ncls) (\<lambda>T. (T + 1) div 2)"
    unfolding maps_shape_def
  proof (intro allI impI)
    fix x :: "'a tensor" and x_len :: "int list"
    assume a: "size1 x = nat inc \<and> length x_len = size0 x \<and> 0 < size2 x"
    then have a1: "size1 x = nat inc" and a2: "length x_len = size0 x" and a3: "0 < size2 x"
      by simp_all
    obtain y yl where y:
      "DualPathSequential_forward (feature_forward fw)
         (InitBlock ib # map snd us @ [FinalBlock fb]) x (Len x_len) = Inr (y, Len yl)"
      "size0 y = size0 x" "size1 y = nat c1" "size2 y = (size2 x + 1) div 2"
      "length yl = length x_len"
      using maps_shapeD[OF feats a1 a2 a3] by metis
    have "0 < size2 y" using y(4) a3 by simp
    then have acc: "conv1d_accepts y ?w 1 0 1 1"
      using y(3) v1(1) by (simp add: conv1d_accepts_def)
    obtain z where z: "F_conv1d fw y ?w bs 1 0 1 1 = Inr z" "size0 z = size0 y"
      "size1 z = size0 ?w" "size2 z = conv1d_out_size y ?w 1 0 1"
      using lib_conv[OF lib acc] by blast
    have zt: "size2 z = size2 y" using z(4) by (simp add: conv1d_out_size_def)
    show "\<exists>y yl. Jasper_forward fw ?net x (Len x_len) = Inr (y, Len yl)
            \<and> size0 y = size0 x \<and> size1 y = nat ncls \<and> size2 y = (size2 x + 1) div 2
            \<and> length yl = length x_len"
      using y z zt
      by (intro exI[of _ z] exI[of _ yl]) (simp add: Jasper_forward_def Conv1d_forward_def)
  qed
  with init show ?thesis by blast
qed

lemma expand_channels_subset:
  "set (expand_stages_spec m channels_per_stage) \<subseteq> set channels_per_stage"
  by (auto simp add: expand_stages_spec_def channels_per_stage_def)

lemma expand_kernel_sizes_subset:
  "set (expand_stages_spec m kernel_sizes_per_stage) \<subseteq> set kernel_sizes_per_stage"
  by (auto simp add: expand_stages_spec_def kernel_sizes_per_stage_def)

lemma expand_dropout_rates_subset:
  "set (expand_stages_spec m dropout_rates_per_stage) \<subseteq> set dropout_rates_per_stage"
  by (auto simp add: expand_stages_spec_def dropout_rates_per_stage_def)

lemma get_jasper_net_ok:
  assumes lib: "library_keeps_shapes fw" and inc: "0 < inc" and ncls: "0 < ncls"
    and v: "parse_version version = Inr (B, R)" and rep: "1 \<le> R"
    and range: "fits64 (B div 5)"
  shows "\<exists>net. get_jasper_net fw version bn_eps inc ncls = Inr net
           \<and> maps_shape Len (Jasper_forward fw net) (nat inc) (nat ncls) (\<lambda>T. (T + 1) div 2)"
proof -
  let ?m = "nat (B div 5)"
  have chs: "\<forall>c\<in>set (expand_stages_spec ?m channels_per_stage). 0 < c"
    using expand_channels_subset[of ?m] by (auto simp add: channels_per_stage_def)
  have ks: "\<forall>k\<in>set (expand_stages_spec ?m kernel_sizes_per_stage). 0 < k \<and> odd k"
    using expand_kernel_sizes_subset[of ?m] by (auto simp add: kernel_sizes_per_stage_def)
  have drs: "\<forall>d\<in>set (expand_stages_spec ?m dropout_rates_per_stage). 0 \<le> d \<and> d \<le> 1"
    using expand_dropout_rates_subset[of ?m] by (auto simp add: dropout_rates_per_stage_def)
  have sm: "\<forall>k\<in>set (expand_stages_spec ?m kernel_sizes_per_stage). k < 2 ^ 62"
    using expand_kernel_sizes_subset[of ?m] by (auto simp add: kernel_sizes_per_stage_def)
  have len: "2 \<le> length (expand_stages_spec ?m channels_per_stage)"
    "2 \<le> length (expand_stages_spec ?m kernel_sizes_per_stage)"
    "2 \<le> length (expand_stages_spec ?m dropout_rates_per_stage)"
    using expand_stages_spec_length[of ?m channels_per_stage]
      expand_stages_spec_length[of ?m kernel_sizes_per_stage]
      expand_stages_spec_length[of ?m dropout_rates_per_stage] by simp_all
  show ?thesis
    using Jasper_ok[OF lib rep inc ncls chs len(1) ks len(2) drs len(3) sm, of bn_eps]
    by (simp add: get_jasper_net_def get_jasper_args_of_pair[OF v range])
qed

lemma half_cases: "(T + 1) div 2 \<in> {T div 2, T div 2 + (1::nat)}"
  by (cases "even T") auto

lemma shape_framework_keeps_shapes: "library_keeps_shapes (shape_framework :: 'a::zero framework)"
  by (simp add: library_keeps_shapes_def conv1d_keeps_shape_def constructors_accept_def
        elementwise_keep_shape_def shape_framework_def zeros_def same_shape_def)

text \<open>
  Claim C3. For a library that keeps shapes, each of the three named factories (without
  pretrained weights) builds a model, and on every input with the model's number of input
  channels, one length per sample and a time length \<open>L > 0\<close> the forward pass returns
  logits with the input's batch size, \<open>num_classes\<close> channels and time length
  \<open>(L + 1) // 2\<close>, which is \<open>L // 2\<close> or \<open>L // 2 + 1\<close>.
\<close>

theorem jasper_output_time_length:
  assumes lib: "library_keeps_shapes fw"
    and fac: "factory = jasper5x3 \<or> factory = jasper10x4 \<or> factory = jasper10x5"
    and pos: "0 < inc" "0 < ncls"
    and x: "size1 x = nat inc" "length x_len = size0 x" "0 < size2 x"
  shows "\<exists>net y yl. factory fw download_model False root_dir inc ncls = ([], Inr net)
           \<and> Jasper_forward fw net x (Len x_len) = Inr (y, Len yl)
           \<and> size0 y = size0 x \<and> size1 y = nat ncls
           \<and> size2 y = (size2 x + 1) div 2
           \<and> size2 y \<in> {size2 x div 2, size2 x div 2 + 1}
           \<and> length yl = length x_len"
proof -
  obtain version name B R where f:
    "factory fw download_model False root_dir inc ncls
       = get_jasper fw download_model version 0.001 (Some name) False root_dir inc ncls"
    and v: "parse_version version = Inr (B, R)" and R: "1 \<le> R"
    and range: "fits64 (B div 5)"
    using fac parse_named fits64_named
    by (elim disjE) (auto simp add: jasper5x3_def jasper10x4_def jasper10x5_def)
  obtain net where net: "get_jasper_net fw version 0.001 inc ncls = Inr net"
    and ms: "maps_shape Len (Jasper_forward fw net) (nat inc) (nat ncls) (\<lambda>T. (T + 1) div 2)"
    using get_jasper_net_ok[OF lib pos v R range] by blast
  have built: "factory fw download_model False root_dir inc ncls = ([], Inr net)"
    using f net by (simp add: get_jasper_def)
  obtain y yl where y: "Jasper_forward fw net x (Len x_len) = Inr (y, Len yl)"
    "size0 y = size0 x" "size1 y = nat ncls" "size2 y = (size2 x + 1) div 2"
    "length yl = length x_len"
    using maps_shapeD[OF ms x] by metis
  show ?thesis
    using built y half_cases[of "size2 x"]
    by (intro exI[of _ net] exI[of _ y] exI[of _ yl]) simp
qed

theorem jasper_output_time_length_witness:
  "\<exists>net y yl. jasper5x3 shape_framework no_download False default_root 64 29 = ([], Inr net)
     \<and> Jasper_forward shape_framework net (zeros 1 64 61) (Len [59]) = Inr (y, Len yl)
     \<and> size0 y = 1 \<and> size1 y = 29 \<and> size2 y = 31"
proof -
  have lib: "library_keeps_shapes (shape_framework :: int framework)"
    by (rule shape_framework_keeps_shapes)
  have x: "size1 (zeros 1 64 61 :: int tensor) = nat 64"
    "length [59 :: int] = size0 (zeros 1 64 61 :: int tensor)"
    "0 < size2 (zeros 1 64 61 :: int tensor)"
    by (simp_all add: zeros_def)
  have pos: "(0::int) < 64" "(0::int) < 29" by simp_all
  from jasper_output_time_length [OF lib _ pos x, of jasper5x3 no_download default_root]
  obtain net y yl where
    "jasper5x3 shape_framework no_download False default_root 64 29 = ([], Inr net)"
    "Jasper_forward shape_framework net (zeros 1 64 61) (Len [59]) = Inr (y, Len yl)"
    "size0 y = size0 (zeros 1 64 61 :: int tensor)" "size1 y = nat 29"
    "size2 y = (size2 (zeros 1 64 61 :: int tensor) + 1) div 2"
    by blast
  then show ?thesis
    by (intro exI[of _ net] exI[of _ y] exI[of _ yl]) (simp add: zeros_def)
qed


end
